theory Spec2Isabelle
  imports Main "HOL-Library.Sublist" "HOL-Library.Multiset" "HOL-Library.AList"
    "HOL-Library.Char_ord" "HOL-Library.List_Lexorder"
begin

section \<open>Python values and library functions\<close>

text \<open>
  Conventions of the embedding.
  \<^item> The bytes of a file and the fingerprints are \<open>string\<close>s (byte lists). A Python \<open>str\<close>
    (the text read from a file, an HTTP body, a YAML document) is the \<open>string\<close> of its
    UTF-8 encoding, so that \<open>text.encode()\<close> is the identity; a \<open>str\<close> with a lone
    surrogate, which has no encoding, is left out.
  \<^item> A file opened in text mode is decoded and its line ends are translated, as
    \<open>open(path, 'r', encoding='utf-8')\<close> and \<open>open(path, 'w', encoding='utf-8')\<close> do with
    the default \<open>newline=None\<close>; a file opened with \<open>'rb'\<close> or copied by \<open>shutil\<close> keeps
    its bytes.
  \<^item> Library functions the repository only calls (\<open>hashlib.md5\<close>, \<open>yaml.safe_load\<close>,
    \<open>yaml.dump\<close>, the iteration order of a Python \<open>set\<close>, the UTF-8 decoder) and the
    platform's \<open>os.linesep\<close> are parameters, collected in the record \<open>pylib\<close>.
  \<^item> Everything the outside world decides during one call (does a request succeed, can a
    file be read or written, what time is it) is an input, collected in a record of the
    environment.
  \<^item> An exception that leaves a function is the \<open>Inl\<close> branch of its result.
\<close>

datatype py_error = OSError | AttributeError | TypeError | KeyError | UnicodeDecodeError

text \<open>
  The values \<open>yaml.safe_load\<close> returns: null, booleans, integers, strings, sequences and
  mappings (floats, timestamps, binaries and sets are left out). A mapping is the list of its
  items in insertion order.
\<close>

datatype yaml =
    YNull
  | YBool bool
  | YInt int
  | YStr string
  | YList "yaml list"
  | YDict "(yaml \<times> yaml) list"

text \<open>
  \<open>decodable b\<close>: the bytes \<open>b\<close> are well-formed UTF-8 (\<open>b.decode('utf-8')\<close> does not
  raise). \<open>linesep\<close> is \<open>os.linesep\<close>: a line feed on POSIX, carriage return and line feed
  on Windows.
\<close>

record pylib =
  md5 :: "string \<Rightarrow> string"
  safe_load :: "string \<Rightarrow> yaml option"
  dump :: "yaml \<Rightarrow> string option"
  set_iter :: "yaml list \<Rightarrow> yaml list"
  decodable :: "string \<Rightarrow> bool"
  linesep :: string

subsection \<open>Files in text mode\<close>

abbreviation CR :: char where "CR \<equiv> CHR 0x0D"
abbreviation LF :: char where "LF \<equiv> CHR 0x0A"

text \<open>
  Reading with universal newlines: a carriage return followed by a line feed, and a carriage
  return alone, are read as one line feed.
\<close>

fun universal_newlines :: "string \<Rightarrow> string" where
  "universal_newlines [] = []"
| "universal_newlines [c] = [if c = CR then LF else c]"
| "universal_newlines (c # d # cs) =
     (if c = CR
      then LF # (if d = LF then universal_newlines cs else universal_newlines (d # cs))
      else c # universal_newlines (d # cs))"

text \<open>
  \<open>open(path, 'r', encoding='utf-8').read()\<close> on a file that holds the given bytes: the
  text, or \<open>None\<close> when the decoder raises \<open>UnicodeDecodeError\<close>.
\<close>

definition read_text :: "pylib \<Rightarrow> string \<Rightarrow> string option" where
  "read_text L bytes = (if decodable L bytes then Some (universal_newlines bytes) else None)"

text \<open>
  The bytes \<open>open(path, 'w', encoding='utf-8').write(text)\<close> leaves in the file: every line
  feed of the text is written as \<open>os.linesep\<close>.
\<close>

definition write_text :: "pylib \<Rightarrow> string \<Rightarrow> string" where
  "write_text L text = concat (map (\<lambda>c. if c = LF then linesep L else [c]) text)"

text \<open>What a copy through a text-mode read and a text-mode write makes of the bytes.\<close>

definition text_copy :: "pylib \<Rightarrow> string \<Rightarrow> string" where
  "text_copy L bytes = write_text L (universal_newlines bytes)"

text \<open>Truth value of a Python object (\<open>not x\<close>, \<open>x or y\<close>).\<close>

fun truthy :: "yaml \<Rightarrow> bool" where
  "truthy YNull = False"
| "truthy (YBool b) = b"
| "truthy (YInt i) = (i \<noteq> 0)"
| "truthy (YStr s) = (s \<noteq> [])"
| "truthy (YList xs) = (xs \<noteq> [])"
| "truthy (YDict kvs) = (kvs \<noteq> [])"

text \<open>\<open>x or {}\<close>\<close>

definition or_empty_dict :: "yaml \<Rightarrow> yaml" where
  "or_empty_dict v = (if truthy v then v else YDict [])"

section \<open>tabby\_config\_sync.py: the state of a TabbyConfigSync object and its world\<close>

record sync_entry =
  h_time :: string
  h_action :: string
  h_device_id :: string

record metadata =
  last_sync_time :: "string option"
  last_local_hash :: "string option"
  last_remote_hash :: "string option"
  device_id :: string
  sync_history :: "sync_entry list"

text \<open>The metadata file \<open>.sync_metadata.json\<close>: missing, not parseable as JSON, or a record.\<close>

datatype metadata_file = No_file | Bad_json | Saved metadata

text \<open>One gist of the hosted store: its named files and the server's \<open>updated_at\<close>.\<close>

record gist =
  files :: "string \<rightharpoonup> string"
  updated_at :: string

text \<open>
  The external writes a call issues, in the order it issues them: a gist created by POST
  (id, content), a PATCH of \<open>config.yaml\<close> in the gist (content, accepted or not), a write of
  the local \<open>config.yaml\<close> (the bytes written, succeeded or not), a backup file written
  (timestamp suffix, the bytes written).
\<close>

datatype event =
    Post_gist string string
  | Patch_gist string bool
  | Write_config string bool
  | Write_backup int string

record sync_state =
  gist_id :: string
  metadata :: metadata
  config_file :: "string option"
  backup_files :: "int \<rightharpoonup> string"
  metadata_store :: metadata_file
  gists :: "string \<rightharpoonup> gist"
  trace :: "event list"

text \<open>
  What the world decides during one \<open>sync()\<close> call. \<open>net_check_ok\<close>, \<open>net_post_ok\<close>,
  \<open>net_fetch_ok\<close> and \<open>net_patch_ok\<close> say whether the request of
  \<open>create_gist_if_not_exists\<close> (GET, POST), \<open>get_remote_config\<close> and
  \<open>update_remote_config\<close> gets through without a \<open>RequestException\<close> (an answer with an
  error status other than the 404 below counts as not getting through); the store answers
  404 for an id it does not hold. \<open>file_readable\<close>: \<open>config.yaml\<close>, when it exists, can be
  opened for reading. \<open>backup_ok\<close>, \<open>write_ok\<close>, \<open>save_ok\<close>: the backup file,
  \<open>config.yaml\<close> and the metadata file can be opened for writing and written; a write that
  fails leaves the file as it was.
\<close>

record env =
  net_check_ok :: bool
  net_post_ok :: bool
  new_gist_id :: string
  net_fetch_ok :: bool
  net_patch_ok :: bool
  server_time :: string
  file_readable :: bool
  backup_ok :: bool
  write_ok :: bool
  save_ok :: bool
  now_sync :: string
  now_hist :: string
  epoch :: int
  host_identity :: string

subsection \<open>Metadata\<close>

definition generate_device_id :: "pylib \<Rightarrow> env \<Rightarrow> string" where
  "generate_device_id L E = md5 L (host_identity E)"

definition create_default_metadata :: "pylib \<Rightarrow> env \<Rightarrow> metadata" where
  "create_default_metadata L E =
     \<lparr>last_sync_time = None, last_local_hash = None, last_remote_hash = None,
      device_id = generate_device_id L E, sync_history = []\<rparr>"

definition save_metadata :: "env \<Rightarrow> sync_state \<Rightarrow> sync_state" where
  "save_metadata E s =
     (if save_ok E then s\<lparr>metadata_store := Saved (metadata s)\<rparr> else s)"

definition load_metadata :: "pylib \<Rightarrow> env \<Rightarrow> sync_state \<Rightarrow> sync_state" where
  "load_metadata L E s =
     (case metadata_store s of
        Saved m \<Rightarrow> s\<lparr>metadata := m\<rparr>
      | Bad_json \<Rightarrow> s\<lparr>metadata := create_default_metadata L E\<rparr>
      | No_file \<Rightarrow> save_metadata E (s\<lparr>metadata := create_default_metadata L E\<rparr>))"

subsection \<open>Fingerprints and the hosted store\<close>

definition calculate_file_hash :: "pylib \<Rightarrow> env \<Rightarrow> sync_state \<Rightarrow> string option" where
  "calculate_file_hash L E s =
     (case config_file s of
        None \<Rightarrow> None
      | Some c \<Rightarrow> if file_readable E then Some (md5 L c) else None)"

text \<open>\<open>(content, hash, updated_at)\<close>, or \<open>None\<close> for the triple \<open>(None, None, None)\<close>.\<close>

definition get_remote_config ::
  "pylib \<Rightarrow> env \<Rightarrow> sync_state \<Rightarrow> (string \<times> string \<times> string) option" where
  "get_remote_config L E s =
     (if \<not> net_fetch_ok E then None
      else case gists s (gist_id s) of
        None \<Rightarrow> None
      | Some g \<Rightarrow>
          (case files g ''config.yaml'' of
             None \<Rightarrow> None
           | Some content \<Rightarrow> Some (content, md5 L content, updated_at g)))"

definition update_remote_config :: "env \<Rightarrow> string \<Rightarrow> sync_state \<Rightarrow> bool \<times> sync_state" where
  "update_remote_config E content s =
     (case gists s (gist_id s) of
        Some g \<Rightarrow>
          (if net_patch_ok E
           then (True, s\<lparr>gists := (gists s)(gist_id s \<mapsto>
                           g\<lparr>files := (files g)(''config.yaml'' \<mapsto> content),
                             updated_at := server_time E\<rparr>),
                         trace := trace s @ [Patch_gist content True]\<rparr>)
           else (False, s\<lparr>trace := trace s @ [Patch_gist content False]\<rparr>))
      | None \<Rightarrow> (False, s\<lparr>trace := trace s @ [Patch_gist content False]\<rparr>))"

text \<open>
  \<open>with open(self.config_file, 'r', encoding='utf-8') as f: f.read()\<close>: the text of
  \<open>config.yaml\<close>, or the exception \<open>open\<close> or the decoder raises.
\<close>

definition read_config :: "pylib \<Rightarrow> env \<Rightarrow> sync_state \<Rightarrow> py_error + string" where
  "read_config L E s =
     (case config_file s of
        None \<Rightarrow> Inl OSError
      | Some bytes \<Rightarrow>
          (if \<not> file_readable E then Inl OSError
           else case read_text L bytes of
             None \<Rightarrow> Inl UnicodeDecodeError
           | Some text \<Rightarrow> Inr text))"

text \<open>
  \<open>create_gist_if_not_exists\<close>. Its \<open>try\<close> catches \<open>RequestException\<close> only, so a failure
  to read \<open>config.yaml\<close> leaves the function as an exception.
\<close>

definition create_gist_if_not_exists ::
  "pylib \<Rightarrow> env \<Rightarrow> sync_state \<Rightarrow> (py_error + bool) \<times> sync_state" where
  "create_gist_if_not_exists L E s =
     (if \<not> net_check_ok E then (Inr False, s)
      else case gists s (gist_id s) of
        Some g \<Rightarrow> (Inr True, s)
      | None \<Rightarrow>
          (case (if config_file s = None then Inr [] else read_config L E s) of
             Inl e \<Rightarrow> (Inl e, s)
           | Inr content \<Rightarrow>
               (if \<not> net_post_ok E then (Inr False, s)
                else (Inr True,
                  s\<lparr>gists := (gists s)(new_gist_id E \<mapsto>
                        \<lparr>files = [''config.yaml'' \<mapsto> content], updated_at = server_time E\<rparr>),
                    gist_id := (if gist_id s = [] then new_gist_id E else gist_id s),
                    trace := trace s @ [Post_gist (new_gist_id E) content]\<rparr>))))"

subsection \<open>merge\_configs\<close>

text \<open>\<open>str(i)\<close> for a natural number, as the f-string \<open>f'profile_{i}'\<close> formats it.\<close>

fun string_of_nat :: "nat \<Rightarrow> string" where
  "string_of_nat n =
     (if n < 10 then [char_of (48 + n)]
      else string_of_nat (n div 10) @ [char_of (48 + n mod 10)])"

text \<open>
  The key under which a dict stores an object: lists and dicts are unhashable, and \<open>True\<close>
  and \<open>False\<close> are the same keys as \<open>1\<close> and \<open>0\<close>.
\<close>

fun dict_key :: "yaml \<Rightarrow> py_error + yaml" where
  "dict_key (YList xs) = Inl TypeError"
| "dict_key (YDict kvs) = Inl TypeError"
| "dict_key (YBool b) = Inr (YInt (if b then 1 else 0))"
| "dict_key v = Inr v"

text \<open>The objects a \<open>for\<close> loop over a value visits.\<close>

fun py_iter :: "yaml \<Rightarrow> py_error + yaml list" where
  "py_iter (YList xs) = Inr xs"
| "py_iter (YDict kvs) = Inr (map fst kvs)"
| "py_iter (YStr s) = Inr (map (\<lambda>c. YStr [c]) s)"
| "py_iter v = Inl TypeError"

text \<open>\<open>x.copy()\<close>\<close>

fun py_copy :: "yaml \<Rightarrow> py_error + yaml" where
  "py_copy (YDict kvs) = Inr (YDict kvs)"
| "py_copy (YList xs) = Inr (YList xs)"
| "py_copy v = Inl AttributeError"

text \<open>\<open>'profiles' in x\<close>\<close>

fun contains_profiles :: "yaml \<Rightarrow> py_error + bool" where
  "contains_profiles (YDict kvs) = Inr (map_of kvs (YStr ''profiles'') \<noteq> None)"
| "contains_profiles (YList xs) = Inr (YStr ''profiles'' \<in> set xs)"
| "contains_profiles (YStr s) = Inr (sublist ''profiles'' s)"
| "contains_profiles v = Inl TypeError"

text \<open>\<open>x.get('profiles', [])\<close>\<close>

fun get_profiles :: "yaml \<Rightarrow> py_error + yaml" where
  "get_profiles (YDict kvs) =
     Inr (case map_of kvs (YStr ''profiles'') of Some v \<Rightarrow> v | None \<Rightarrow> YList [])"
| "get_profiles v = Inl AttributeError"

text \<open>
  The dict comprehension \<open>{p.get('name', f'profile_{i}'): p for i, p in enumerate(ps)}\<close>,
  from index \<open>i\<close> on, added to the items \<open>acc\<close> built so far: a key that is already
  there keeps its place and takes the new value.
\<close>

fun profiles_by_name ::
  "nat \<Rightarrow> yaml list \<Rightarrow> (yaml \<times> yaml) list \<Rightarrow> py_error + (yaml \<times> yaml) list" where
  "profiles_by_name i [] acc = Inr acc"
| "profiles_by_name i (p # ps) acc =
     (case p of
        YDict kvs \<Rightarrow>
          (case dict_key (case map_of kvs (YStr ''name'') of
                            Some n \<Rightarrow> n
                          | None \<Rightarrow> YStr (''profile_'' @ string_of_nat i)) of
             Inl e \<Rightarrow> Inl e
           | Inr k \<Rightarrow> profiles_by_name (Suc i) ps (AList.update k p acc))
      | _ \<Rightarrow> Inl AttributeError)"

definition name_index :: "yaml \<Rightarrow> py_error + (yaml \<times> yaml) list" where
  "name_index config =
     (case get_profiles config of
        Inl e \<Rightarrow> Inl e
      | Inr v \<Rightarrow>
          (case py_iter v of
             Inl e \<Rightarrow> Inl e
           | Inr ps \<Rightarrow> profiles_by_name 0 ps []))"

text \<open>The loop \<open>for name in all_profile_names\<close> that fills \<open>merged_profiles\<close>.\<close>

fun merge_profiles ::
  "yaml list \<Rightarrow> (yaml \<times> yaml) list \<Rightarrow> (yaml \<times> yaml) list \<Rightarrow> py_error + yaml list" where
  "merge_profiles [] local_profiles remote_profiles = Inr []"
| "merge_profiles (name # names) local_profiles remote_profiles =
     (case (if map_of local_profiles name \<noteq> None \<and> map_of remote_profiles name \<noteq> None
            then map_of local_profiles name
            else if map_of local_profiles name \<noteq> None
            then map_of local_profiles name
            else map_of remote_profiles name) of
        None \<Rightarrow> Inl KeyError
      | Some p \<Rightarrow>
          (case merge_profiles names local_profiles remote_profiles of
             Inl e \<Rightarrow> Inl e
           | Inr merged_profiles \<Rightarrow> Inr (p # merged_profiles)))"

definition merge_configs :: "pylib \<Rightarrow> yaml \<Rightarrow> yaml \<Rightarrow> py_error + yaml" where
  "merge_configs L local_config remote_config =
     (if \<not> truthy local_config then Inr remote_config
      else if \<not> truthy remote_config then Inr local_config
      else case py_copy local_config of
        Inl e \<Rightarrow> Inl e
      | Inr merged_config \<Rightarrow>
          (case contains_profiles remote_config of
             Inl e \<Rightarrow> Inl e
           | Inr False \<Rightarrow> Inr merged_config
           | Inr True \<Rightarrow>
               (case contains_profiles local_config of
                  Inl e \<Rightarrow> Inl e
                | Inr False \<Rightarrow> Inr merged_config
                | Inr True \<Rightarrow>
                    (case name_index local_config of
                       Inl e \<Rightarrow> Inl e
                     | Inr local_profiles \<Rightarrow>
                         (case name_index remote_config of
                            Inl e \<Rightarrow> Inl e
                          | Inr remote_profiles \<Rightarrow>
                              (case merge_profiles
                                      (set_iter L (map fst local_profiles @ map fst remote_profiles))
                                      local_profiles remote_profiles of
                                 Inl e \<Rightarrow> Inl e
                               | Inr merged_profiles \<Rightarrow>
                                   (case merged_config of
                                      YDict kvs \<Rightarrow>
                                        Inr (YDict (AList.update (YStr ''profiles'')
                                                      (YList merged_profiles) kvs))
                                    | _ \<Rightarrow> Inl TypeError)))))))"

subsection \<open>Profiles keyed by name\<close>

text \<open>
  The name of a profile, and a profiles list that is keyed by name: every entry is a mapping
  with a string under \<open>name\<close>, and no two entries share their name.
\<close>

definition profile_name :: "yaml \<Rightarrow> yaml option" where
  "profile_name p = (case p of YDict kvs \<Rightarrow> map_of kvs (YStr ''name'') | _ \<Rightarrow> None)"

fun has_string_name :: "yaml \<Rightarrow> bool" where
  "has_string_name p = (case profile_name p of Some (YStr n) \<Rightarrow> True | _ \<Rightarrow> False)"

definition keyed_by_name :: "yaml list \<Rightarrow> bool" where
  "keyed_by_name ps = (list_all has_string_name ps \<and> distinct (map profile_name ps))"

subsection \<open>sync\<close>

text \<open>
  The block that follows every successful write in \<open>sync()\<close>: the three metadata fields
  are set, one entry is appended to the history, and the metadata is saved.
\<close>

definition commit_metadata ::
  "env \<Rightarrow> string \<Rightarrow> string option \<Rightarrow> string option \<Rightarrow> sync_state \<Rightarrow> sync_state" where
  "commit_metadata E act local_h remote_h s =
     save_metadata E
       (s\<lparr>metadata := (metadata s)
            \<lparr>last_sync_time := Some (now_sync E),
             last_local_hash := local_h,
             last_remote_hash := remote_h,
             sync_history := sync_history (metadata s) @
               [\<lparr>h_time = now_hist E, h_action = act,
                 h_device_id = device_id (metadata s)\<rparr>]\<rparr>\<rparr>)"

text \<open>
  The \<open>try\<close> block that copies \<open>config.yaml\<close> to \<open>config.yaml.bak.<int(time.time())>\<close>,
  \<open>with open(config_file, 'r') as src, open(backup_file, 'w') as dst: dst.write(src.read())\<close>,
  both in text mode. Its \<open>except\<close> branch only logs a warning. Both files are opened before
  the read: when decoding raises, the backup file has been created and stays empty.
\<close>

definition write_backup :: "pylib \<Rightarrow> env \<Rightarrow> sync_state \<Rightarrow> sync_state" where
  "write_backup L E s =
     (case config_file s of
        None \<Rightarrow> s
      | Some bytes \<Rightarrow>
          (if file_readable E \<and> backup_ok E
           then let copied = (case read_text L bytes of
                                None \<Rightarrow> []
                              | Some text \<Rightarrow> write_text L text)
                in s\<lparr>backup_files := (backup_files s)(epoch E \<mapsto> copied),
                      trace := trace s @ [Write_backup (epoch E) copied]\<rparr>
           else s))"

text \<open>
  Reading \<open>config.yaml\<close> and uploading its text (the body of the forced upload after its
  existence check, and of case 2, where \<open>open\<close> raises when the file is missing). The
  fingerprint stored for both sides is \<open>local_hash\<close>, which \<open>calculate_file_hash\<close> took
  from the bytes of the file.
\<close>

definition upload_local ::
  "pylib \<Rightarrow> env \<Rightarrow> string option \<Rightarrow> sync_state \<Rightarrow> (py_error + bool) \<times> sync_state" where
  "upload_local L E local_hash s =
     (case read_config L E s of
        Inl e \<Rightarrow> (Inl e, s)
      | Inr local_content \<Rightarrow>
          (case update_remote_config E local_content s of
             (True, s') \<Rightarrow>
               (Inr True, commit_metadata E ''upload'' local_hash local_hash s')
           | (False, s') \<Rightarrow> (Inr False, s')))"

text \<open>
  The body shared by the forced download and case 3: the remote text is written to
  \<open>config.yaml\<close> in text mode; the fingerprint stored for both sides is that of the remote
  text.
\<close>

definition download_remote ::
  "pylib \<Rightarrow> env \<Rightarrow> string \<Rightarrow> string \<Rightarrow> sync_state \<Rightarrow> (py_error + bool) \<times> sync_state" where
  "download_remote L E remote_content remote_hash s =
     (if remote_content = [] then (Inr False, s)
      else
        let s1 = write_backup L E s;
            written = write_text L remote_content
        in if write_ok E
           then (Inr True,
                 commit_metadata E ''download'' (Some remote_hash) (Some remote_hash)
                   (s1\<lparr>config_file := Some written,
                       trace := trace s1 @ [Write_config written True]\<rparr>))
           else (Inr False, s1\<lparr>trace := trace s1 @ [Write_config written False]\<rparr>))"

text \<open>
  Case 4: both sides changed. The merged text is written to \<open>config.yaml\<close> in text mode
  and uploaded; the fingerprint stored for both sides is that of the merged text.
\<close>

definition merge_both ::
  "pylib \<Rightarrow> env \<Rightarrow> string \<Rightarrow> sync_state \<Rightarrow> (py_error + bool) \<times> sync_state" where
  "merge_both L E remote_content s =
     (case read_config L E s of
        Inl e \<Rightarrow> (Inr False, s)
      | Inr local_content \<Rightarrow>
          (case safe_load L local_content of
             None \<Rightarrow> (Inr False, s)
           | Some local_doc \<Rightarrow>
               (case safe_load L remote_content of
                  None \<Rightarrow> (Inr False, s)
                | Some remote_doc \<Rightarrow>
                    let s1 = write_backup L E s
                    in (case merge_configs L (or_empty_dict local_doc)
                                (or_empty_dict remote_doc) of
                      Inl e \<Rightarrow> (Inl e, s1)
                    | Inr merged_config \<Rightarrow>
                        (case dump L merged_config of
                           None \<Rightarrow> (Inr False, s1)
                         | Some merged_content \<Rightarrow>
                             (if \<not> write_ok E
                              then (Inr False,
                                    s1\<lparr>trace := trace s1 @
                                         [Write_config (write_text L merged_content) False]\<rparr>)
                              else (case update_remote_config E merged_content
                                     (s1\<lparr>config_file := Some (write_text L merged_content),
                                         trace := trace s1 @
                                           [Write_config (write_text L merged_content) True]\<rparr>) of
                                (True, s2) \<Rightarrow>
                                  (Inr True,
                                   commit_metadata E ''merge'' (Some (md5 L merged_content))
                                     (Some (md5 L merged_content)) s2)
                              | (False, s2) \<Rightarrow> (Inr False, s2))))))))"

definition sync ::
  "pylib \<Rightarrow> env \<Rightarrow> bool \<Rightarrow> bool \<Rightarrow> sync_state \<Rightarrow> (py_error + bool) \<times> sync_state" where
  "sync L E force_upload force_download s0 =
     (case create_gist_if_not_exists L E s0 of
        (Inl e, s) \<Rightarrow> (Inl e, s)
      | (Inr False, s) \<Rightarrow> (Inr False, s)
      | (Inr True, s) \<Rightarrow>
          let local_hash = calculate_file_hash L E s
          in (case get_remote_config L E s of
            None \<Rightarrow> (Inr False, s)
          | Some (remote_content, remote_hash, remote_updated_at) \<Rightarrow>
              let last_local = last_local_hash (metadata s);
                  last_remote = last_remote_hash (metadata s)
              in if force_upload
                 then (if config_file s = None then (Inr False, s)
                       else upload_local L E local_hash s)
                 else if force_download
                 then download_remote L E remote_content remote_hash s
                 else if local_hash = last_local \<and> Some remote_hash = last_remote
                 then (Inr True, s)
                 else if local_hash \<noteq> last_local \<and> Some remote_hash = last_remote
                 then upload_local L E local_hash s
                 else if local_hash = last_local \<and> Some remote_hash \<noteq> last_remote
                 then download_remote L E remote_content remote_hash s
                 else if local_hash \<noteq> last_local \<and> Some remote_hash \<noteq> last_remote
                 then merge_both L E remote_content s
                 else (Inr False, s)))"

subsection \<open>What a cycle leaves behind\<close>

text \<open>
  The fingerprint of \<open>config.yaml\<close> as it is on disk, and of the \<open>config.yaml\<close> held by
  the gist the object points at.
\<close>

definition disk_fingerprint :: "pylib \<Rightarrow> sync_state \<Rightarrow> string option" where
  "disk_fingerprint L s = map_option (md5 L) (config_file s)"

definition remote_fingerprint :: "pylib \<Rightarrow> sync_state \<Rightarrow> string option" where
  "remote_fingerprint L s =
     (case gists s (gist_id s) of
        None \<Rightarrow> None
      | Some g \<Rightarrow> map_option (md5 L) (files g ''config.yaml''))"

text \<open>
  The writes of the four transitions: an accepted PATCH of the gist and a completed write of
  \<open>config.yaml\<close>. A cycle performed a write when one stands among the events it added.
\<close>

fun is_write :: "event \<Rightarrow> bool" where
  "is_write (Patch_gist c ok) = ok"
| "is_write (Write_config c ok) = ok"
| "is_write ev = False"

definition performed_write :: "sync_state \<Rightarrow> sync_state \<Rightarrow> bool" where
  "performed_write s s' = list_ex is_write (drop (length (trace s)) (trace s'))"

text \<open>
  After the cycle from \<open>s\<close> to \<open>s'\<close>: the stored fingerprints are those of the file on disk
  and of the remote content, and the history grew by one entry.
\<close>

definition consistent_commit :: "pylib \<Rightarrow> sync_state \<Rightarrow> sync_state \<Rightarrow> bool" where
  "consistent_commit L s s' =
     (last_local_hash (metadata s') = disk_fingerprint L s' \<and>
      last_remote_hash (metadata s') = remote_fingerprint L s' \<and>
      (\<exists>e. sync_history (metadata s') = sync_history (metadata s) @ [e]))"

text \<open>
  After the cycle from \<open>s\<close> to \<open>s'\<close>: the history grew by one entry, the two stored
  fingerprints are one value, and the metadata file holds the new record unless saving it
  failed (\<open>save_metadata\<close> only logs that).
\<close>

definition committed :: "env \<Rightarrow> sync_state \<Rightarrow> sync_state \<Rightarrow> bool" where
  "committed E s s' =
     ((\<exists>e. sync_history (metadata s') = sync_history (metadata s) @ [e]) \<and>
      last_local_hash (metadata s') = last_remote_hash (metadata s') \<and>
      metadata_store s' = (if save_ok E then Saved (metadata s') else metadata_store s))"

text \<open>The metadata, in memory and on disk, is what it was.\<close>

definition untouched :: "sync_state \<Rightarrow> sync_state \<Rightarrow> bool" where
  "untouched s s' = (metadata s' = metadata s \<and> metadata_store s' = metadata_store s)"

text \<open>Both sides are as the metadata records them, and the remote content exists.\<close>

definition in_sync :: "pylib \<Rightarrow> sync_state \<Rightarrow> bool" where
  "in_sync L s =
     (last_local_hash (metadata s) = disk_fingerprint L s \<and>
      last_remote_hash (metadata s) = remote_fingerprint L s \<and>
      remote_fingerprint L s \<noteq> None)"

subsection \<open>Example inputs\<close>

text \<open>
  A library for the examples: the MD5 digests, parses and dumps of the few documents the
  examples use, as \<open>hashlib\<close> and PyYAML compute them (\<open>a: [1\<close> is not well-formed YAML),
  on a POSIX platform. The examples hold ASCII bytes only, which are well-formed UTF-8.
\<close>

definition ex_md5 :: "string \<Rightarrow> string" where
  "ex_md5 c =
     (if c = ''{a: 1}'' then ''07d2461659c90a7d5808c130b5dd9e14''
      else if c = ''{b: 2}'' then ''fca290f31750545e750d1b6b0bf580cc''
      else if c = ''a: 1'' @ [CHR 0x0A] then ''e0ccdaf42c593022e15b18cc0e96d201''
      else if c = ''a: [1'' then ''b80f1eb50bd23c513c850d30d2124f9a''
      else if c = ''{b: 2}'' @ [CR, LF] then ''54bd951c2cd3fa35dab18e1fab3b2d43''
      else if c = ''{b: 2}'' @ [LF] then ''0545b84670561b22930cb27e9075b9d1''
      else ''md5 of '' @ c)"

definition ex_safe_load :: "string \<Rightarrow> yaml option" where
  "ex_safe_load c =
     (if c = ''{a: 1}'' \<or> c = ''a: 1'' @ [LF] then Some (YDict [(YStr ''a'', YInt 1)])
      else if c = ''{b: 2}'' \<or> c = ''{b: 2}'' @ [LF] then Some (YDict [(YStr ''b'', YInt 2)])
      else None)"

definition ex_dump :: "yaml \<Rightarrow> string option" where
  "ex_dump v = (if v = YDict [(YStr ''a'', YInt 1)] then Some (''a: 1'' @ [LF]) else None)"

definition ex_decodable :: "string \<Rightarrow> bool" where
  "ex_decodable bytes = list_all (\<lambda>c. of_char c < (128::nat)) bytes"

definition ex_lib :: pylib where
  "ex_lib =
     \<lparr>md5 = ex_md5, safe_load = ex_safe_load, dump = ex_dump, set_iter = remdups,
      decodable = ex_decodable, linesep = [LF]\<rparr>"

text \<open>A world in which every request and every file operation succeeds.\<close>

definition ex_env :: env where
  "ex_env =
     \<lparr>net_check_ok = True, net_post_ok = True, new_gist_id = ''f00d'',
      net_fetch_ok = True, net_patch_ok = True, server_time = ''2025-01-02T03:04:05Z'',
      file_readable = True, backup_ok = True, write_ok = True, save_ok = True,
      now_sync = ''2025-01-02T03:04:05.000001'', now_hist = ''2025-01-02T03:04:05.000002'',
      epoch = 1735787045, host_identity = ''host-x86_64''\<rparr>"

text \<open>
  A device whose gist \<open>cafe\<close> exists: the local and the remote \<open>config.yaml\<close> and the
  metadata are given, there is no backup yet.
\<close>

definition ex_state :: "string \<Rightarrow> string \<Rightarrow> metadata \<Rightarrow> sync_state" where
  "ex_state local_content remote_content m =
     \<lparr>gist_id = ''cafe'', metadata = m, config_file = Some local_content,
      backup_files = Map.empty, metadata_store = Saved m,
      gists = [''cafe'' \<mapsto> \<lparr>files = [''config.yaml'' \<mapsto> remote_content],
                              updated_at = ''2025-01-01T00:00:00Z''\<rparr>],
      trace = []\<rparr>"

text \<open>A device whose last cycle left both sides at \<open>{a: 1}\<close>.\<close>

definition ex_synced :: sync_state where
  "ex_synced =
     ex_state ''{a: 1}'' ''{a: 1}''
       \<lparr>last_sync_time = Some ''2025-01-01T00:00:00.000001'',
        last_local_hash = Some ''07d2461659c90a7d5808c130b5dd9e14'',
        last_remote_hash = Some ''07d2461659c90a7d5808c130b5dd9e14'',
        device_id = ''d0'', sync_history = []\<rparr>"

text \<open>
  A device on its first run: there is no metadata file, and \<open>load_metadata\<close> (called by
  \<open>__init__\<close>) creates the default metadata.
\<close>

definition ex_first_run :: "string \<Rightarrow> string \<Rightarrow> sync_state" where
  "ex_first_run local_content remote_content =
     load_metadata ex_lib ex_env
       ((ex_state local_content remote_content (create_default_metadata ex_lib ex_env))
          \<lparr>metadata_store := No_file\<rparr>)"

text \<open>A profile that has only its name.\<close>

definition ex_profile :: "string \<Rightarrow> yaml" where
  "ex_profile n = YDict [(YStr ''name'', YStr n)]"

section \<open>launcher.py: TabbyAutoSyncLauncher\<close>

datatype SyncResult = SUCCESS | NO_CHANGES | CONFLICT_RESOLVED | ERROR | CANCELLED

datatype ConflictStrategy = NEWEST | OLDEST | LOCAL | CLOUD | MERGE | MANUAL


text \<open>
  The messages that accompany a \<open>SyncResult\<close> (the source's texts are Chinese): of
  \<open>sync_to_cloud\<close>: configuration uploaded to the cloud; network unavailable, saved to a
  local backup; upload failed; the local configuration file does not exist. Of
  \<open>sync_from_cloud\<close>: configuration path not found; no configuration in the cloud; rolled
  back to the backup; configuration synchronised from the cloud; synchronisation failed.
\<close>

datatype message =
    Msg_uploaded
  | Msg_saved_offline
  | Msg_upload_failed
  | Msg_no_local_config
  | Msg_no_config_path
  | Msg_no_cloud_config
  | Msg_rolled_back
  | Msg_synced_from_cloud
  | Msg_sync_failed

text \<open>The three delivery mechanisms of \<open>upload_to_gist\<close>, in the order of the source.\<close>

datatype mechanism = System_http | Requests | Urllib

text \<open>
  A file is its modification time and its content; a directory is the list of its entries
  in the order the file system lists them. \<open>tabby_config\<close> is Tabby's \<open>config.yaml\<close>
  (\<open>None\<close> when it does not exist), \<open>backups\<close> the directory \<open>backups/\<close>, \<open>max_backups\<close>
  the value of \<open>int(config.get('sync', 'max_backups'))\<close> (\<open>None\<close> when \<open>int\<close> raises), and
  \<open>attempts\<close> the mechanisms tried so far.
\<close>

record launcher =
  github_token :: string
  launcher_gist_id :: string
  config_path_known :: bool
  tabby_config :: "(int \<times> string) option"
  backups :: "(string \<times> int \<times> string) list"
  max_backups :: "int option"
  conflict_strategy :: ConflictStrategy
  last_config_mtime :: "int option"
  config_changed_since_start :: bool
  attempts :: "mechanism list"

text \<open>
  What the world decides during one call of the launcher: which mechanisms get through
  (\<open>requests_available\<close> is the module flag \<open>REQUESTS_AVAILABLE\<close>), the id a created gist
  gets, whether the files can be written or copied, the timestamp
  \<open>datetime.now().strftime("%Y%m%d_%H%M%S")\<close> of a backup name, the modification time a
  file written now gets, \<open>time.time()\<close> when \<open>sync_to_cloud\<close> looks for a fallback file,
  what \<open>download_from_gist\<close> returns, and the answers typed at the prompts.
\<close>

record launcher_env =
  system_http_ok :: bool
  requests_available :: bool
  requests_ok :: bool
  urllib_ok :: bool
  created_gist_id :: string
  fallback_write_ok :: bool
  backup_copy_ok :: bool
  restore_copy_ok :: bool
  config_write_ok :: bool
  config_read_ok :: bool
  now_stamp :: string
  write_time :: int
  check_time :: int
  cloud_content :: "string option"
  answer_rollback :: bool
  answer_confirm :: bool

subsection \<open>Patterns and slices\<close>

text \<open>
  Matching a name against a pattern in which \<open>*\<close> stands for any run of characters and
  \<open>?\<close> for one character, case-sensitively, as \<open>fnmatch\<close> and \<open>Path.glob\<close> match on
  POSIX. The patterns of the repository have no \<open>[\<close>.
\<close>

fun glob_match :: "string \<Rightarrow> string \<Rightarrow> bool" where
  "glob_match [] [] = True"
| "glob_match [] (c # cs) = False"
| "glob_match (p # ps) [] = (p = CHR ''*'' \<and> glob_match ps [])"
| "glob_match (p # ps) (c # cs) =
     (if p = CHR ''*'' then glob_match ps (c # cs) \<or> glob_match (p # ps) cs
      else (p = CHR ''?'' \<or> p = c) \<and> glob_match ps cs)"

text \<open>\<open>directory.glob(pattern)\<close>: the matching entries, in directory order.\<close>

definition glob :: "string \<Rightarrow> (string \<times> int \<times> string) list \<Rightarrow> (string \<times> int \<times> string) list" where
  "glob pat dir = filter (\<lambda>entry. glob_match pat (fst entry)) dir"

text \<open>The slice \<open>xs[m:]\<close>: a negative \<open>m\<close> counts from the end.\<close>

definition slice_from :: "int \<Rightarrow> 'a list \<Rightarrow> 'a list" where
  "slice_from m xs =
     (if 0 \<le> m then drop (nat m) xs else drop (nat (int (length xs) + m)) xs)"

definition unlink_all :: "string list \<Rightarrow> (string \<times> int \<times> string) list \<Rightarrow> (string \<times> int \<times> string) list" where
  "unlink_all names dir = filter (\<lambda>entry. fst entry \<notin> set names) dir"

subsection \<open>Backups\<close>

text \<open>
  \<open>cleanup_old_backups\<close>: the \<open>config_backup_*.yaml\<close> files sorted by modification time,
  newest first (Python's sort is stable, also with \<open>reverse=True\<close>); all but the first
  \<open>max_backups\<close> are deleted. When \<open>int\<close> raises, the \<open>except\<close> branch logs and nothing is
  deleted.
\<close>

definition cleanup_old_backups :: "launcher \<Rightarrow> launcher" where
  "cleanup_old_backups s =
     (case max_backups s of
        None \<Rightarrow> s
      | Some m \<Rightarrow>
          let backup_files = sort_key (\<lambda>entry. - fst (snd entry))
                               (glob ''config_backup_*.yaml'' (backups s))
          in s\<lparr>backups := unlink_all (map fst (slice_from m backup_files)) (backups s)\<rparr>)"

text \<open>
  \<open>create_backup(self.tabby_config_path)\<close>: \<open>shutil.copy2\<close> keeps the modification time of
  the source. The result is the name of the backup, or \<open>None\<close>.
\<close>

definition create_backup :: "launcher_env \<Rightarrow> launcher \<Rightarrow> string option \<times> launcher" where
  "create_backup E s =
     (case tabby_config s of
        None \<Rightarrow> (None, s)
      | Some source \<Rightarrow>
          let backup_filename = ''config_backup_'' @ now_stamp E @ ''.yaml''
          in if \<not> backup_copy_ok E then (None, s)
             else (Some backup_filename,
                   cleanup_old_backups
                     (s\<lparr>backups := AList.update backup_filename source (backups s)\<rparr>)))"



subsection \<open>Uploading\<close>








subsection \<open>Downloading and restoring\<close>

text \<open>
  \<open>validate_config\<close>: the file exists, can be read as text, and \<open>yaml.safe_load\<close> does not
  raise on it.
\<close>

definition validate_config :: "pylib \<Rightarrow> launcher_env \<Rightarrow> launcher \<Rightarrow> bool" where
  "validate_config L E s =
     (case (if config_path_known s then tabby_config s else None) of
        None \<Rightarrow> False
      | Some f \<Rightarrow>
          (case (if config_read_ok E then read_text L (snd f) else None) of
             None \<Rightarrow> False
           | Some text \<Rightarrow> safe_load L text \<noteq> None))"

text \<open>\<open>shutil.copy2(backup_path, self.tabby_config_path)\<close>; it raises when the backup is gone.\<close>

definition copy_backup_to_config :: "launcher_env \<Rightarrow> string \<Rightarrow> launcher \<Rightarrow> launcher option" where
  "copy_backup_to_config E name s =
     (case map_of (backups s) name of
        None \<Rightarrow> None
      | Some f \<Rightarrow> if restore_copy_ok E then Some (s\<lparr>tabby_config := Some f\<rparr>) else None)"

text \<open>\<open>sync_from_cloud\<close>: the downloaded text is written to the configuration in text mode.\<close>

definition sync_from_cloud ::
  "pylib \<Rightarrow> launcher_env \<Rightarrow> launcher \<Rightarrow> (SyncResult \<times> message) \<times> launcher" where
  "sync_from_cloud L E s =
     (if \<not> config_path_known s then ((ERROR, Msg_no_config_path), s)
      else case (case cloud_content E of Some c \<Rightarrow> (if c = [] then None else Some c)
                 | None \<Rightarrow> None) of
        None \<Rightarrow> ((NO_CHANGES, Msg_no_cloud_config), s)
      | Some content \<Rightarrow>
          (case create_backup E s of
             (backup_path, s1) \<Rightarrow>
               (if \<not> config_write_ok E then ((ERROR, Msg_sync_failed), s1)
                else
                  let s2 = s1\<lparr>tabby_config := Some (write_time E, write_text L content)\<rparr>
                  in if \<not> validate_config L E s2 \<and> backup_path \<noteq> None \<and> answer_rollback E
                     then (case copy_backup_to_config E (the backup_path) s2 of
                             Some s3 \<Rightarrow> ((SUCCESS, Msg_rolled_back), s3)
                           | None \<Rightarrow> ((ERROR, Msg_sync_failed), s2))
                     else ((SUCCESS, Msg_synced_from_cloud), s2))))"

text \<open>\<open>restore_from_backup(backup_path)\<close>, for the backup file of the given name.\<close>

definition restore_from_backup :: "launcher_env \<Rightarrow> string \<Rightarrow> launcher \<Rightarrow> bool \<times> launcher" where
  "restore_from_backup E name s =
     (if map_of (backups s) name = None then (False, s)
      else if \<not> config_path_known s then (False, s)
      else if \<not> answer_confirm E then (False, s)
      else case create_backup E s of
        (current_backup, s1) \<Rightarrow>
          (case copy_backup_to_config E name s1 of
             Some s2 \<Rightarrow> (True, s2)
           | None \<Rightarrow> (False, s1)))"

subsection \<open>The delivery chain, as the specification words it\<close>






text \<open>The backup file \<open>create_backup\<close> writes.\<close>

definition backup_name :: "launcher_env \<Rightarrow> string" where
  "backup_name E = ''config_backup_'' @ now_stamp E @ ''.yaml''"

text \<open>The device of \<open>ex_synced\<close> after the remote content changed to \<open>{b: 2}\<close>.\<close>

definition ex_remote_changed :: sync_state where
  "ex_remote_changed = ex_state ''{a: 1}'' ''{b: 2}'' (metadata ex_synced)"

text \<open>
  The device of \<open>ex_synced\<close> after \<open>config.yaml\<close> was saved anew by an editor that ends
  lines with carriage return and line feed: the file holds the line \<open>{b: 2}\<close>.
\<close>

definition ex_local_changed :: sync_state where
  "ex_local_changed = ex_state (''{b: 2}'' @ [CR, LF]) ''{a: 1}'' (metadata ex_synced)"

section \<open>tabby-sync.py: fingerprints and archives\<close>

text \<open>
  The file system below \<open>CONFIG_DIR\<close> is a tree: a file with its bytes, or a directory with
  its entries in the order \<open>os.scandir\<close> lists them. A path is the list of its components.
  Symbolic links and unreadable entries are not modelled.
\<close>

type_synonym path = "string list"

datatype node = File string | Dir "(string \<times> node) list"

definition SYNC_ITEMS :: "string list" where
  "SYNC_ITEMS =
     [''config.yaml'', ''keymaps.yaml'', ''window-config.yaml'', ''vault/'', ''profiles/'',
      ''plugins/'', ''themes/'']"

definition EXCLUDE_PATTERNS :: "string list" where
  "EXCLUDE_PATTERNS = [''*.log'', ''*.tmp'', ''*.cache'', ''node_modules/*'', ''*.gitkeep'']"

text \<open>\<open>any(fnmatch.fnmatch(name, pattern) for pattern in EXCLUDE_PATTERNS)\<close>\<close>

definition excluded :: "string \<Rightarrow> bool" where
  "excluded name = list_ex (\<lambda>pattern. glob_match pattern name) EXCLUDE_PATTERNS"

text \<open>
  \<open>(CONFIG_DIR / item)\<close> relative to \<open>CONFIG_DIR\<close>: the components of the item between
  slashes, without the empty ones and the dots. Items are relative and have no \<open>..\<close>.
\<close>

fun split_on :: "char \<Rightarrow> string \<Rightarrow> string list" where
  "split_on sep [] = [[]]"
| "split_on sep (c # cs) =
     (if c = sep then [] # split_on sep cs
      else case split_on sep cs of
        w # ws \<Rightarrow> (c # w) # ws
      | [] \<Rightarrow> [[c]])"

definition parts :: "string \<Rightarrow> path" where
  "parts item = filter (\<lambda>part. part \<noteq> [] \<and> part \<noteq> ''.'') (split_on CHR ''/'' item)"

text \<open>\<open>Path.as_posix()\<close> of a relative path.\<close>

fun as_posix :: "path \<Rightarrow> string" where
  "as_posix [] = ''.''"
| "as_posix [name] = name"
| "as_posix (name # rest) = name @ ''/'' @ as_posix rest"

text \<open>What a path leads to, and the bytes of the file it leads to.\<close>

fun node_at :: "path \<Rightarrow> node \<Rightarrow> node option" where
  "node_at [] t = Some t"
| "node_at (name # rest) (Dir entries) =
     (case map_of entries name of None \<Rightarrow> None | Some t \<Rightarrow> node_at rest t)"
| "node_at (name # rest) (File content) = None"

definition file_at :: "path \<Rightarrow> node \<Rightarrow> string option" where
  "file_at p t = (case node_at p t of Some (File content) \<Rightarrow> Some content | _ \<Rightarrow> None)"

text \<open>
  The files \<open>for root, _, files in os.walk(path): for file in files\<close> visits, in that
  order, each with its path (\<open>root\<close> being the path of the directory walked): top-down,
  first the files of a directory in listing order, then its subdirectories in listing order.
\<close>

fun walk_files :: "path \<Rightarrow> node \<Rightarrow> (path \<times> string) list" where
  "walk_files root (File content) = []"
| "walk_files root (Dir entries) =
     concat (map (\<lambda>(name, t). case t of File content \<Rightarrow> [(root @ [name], content)] | Dir sub \<Rightarrow> [])
               entries) @
     concat (map (\<lambda>(name, t). case t of File content \<Rightarrow> [] | Dir sub \<Rightarrow> walk_files (root @ [name]) t)
               entries)"


text \<open>The fingerprints; the argument is what the item path leads to, \<open>None\<close> when it does not exist.\<close>

definition file_hash :: "pylib \<Rightarrow> node option \<Rightarrow> string" where
  "file_hash L t = (case t of Some (File content) \<Rightarrow> md5 L content | _ \<Rightarrow> [])"

text \<open>
  The bytes \<open>dir_hash\<close> feeds to the hasher: for each visited file that is not excluded, its
  path relative to the directory, then its bytes.
\<close>

definition hashed_bytes :: "node \<Rightarrow> string" where
  "hashed_bytes t =
     concat (map (\<lambda>(file_path, content). as_posix file_path @ content)
               (filter (\<lambda>(file_path, content). \<not> excluded (last file_path)) (walk_files [] t)))"

definition dir_hash :: "pylib \<Rightarrow> node option \<Rightarrow> string" where
  "dir_hash L t = (case t of None \<Rightarrow> [] | Some d \<Rightarrow> md5 L (hashed_bytes d))"

definition get_item_hash :: "pylib \<Rightarrow> node option \<Rightarrow> string" where
  "get_item_hash L t = (case t of Some (Dir entries) \<Rightarrow> dir_hash L t | _ \<Rightarrow> file_hash L t)"

text \<open>
  \<open>create_zip_archive(items)\<close>: the entries written to the archive, in order, each with its
  archive name as the list of its components (\<open>as_posix\<close> joins them, extraction splits
  them again) and its bytes. A file item is stored under its base name.
\<close>

definition create_zip_archive :: "string list \<Rightarrow> node \<Rightarrow> (path \<times> string) list" where
  "create_zip_archive items config_dir =
     concat (map (\<lambda>item.
        case node_at (parts item) config_dir of
          None \<Rightarrow> []
        | Some (Dir entries) \<Rightarrow>
            filter (\<lambda>(arcname, content). \<not> excluded (last arcname))
              (walk_files (parts item) (Dir entries))
        | Some (File content) \<Rightarrow>
            (if excluded item then []
             else case rev (parts item) of
               [] \<Rightarrow> []
             | basename # parents \<Rightarrow> [([basename], content)]))
      (if items = [] then SYNC_ITEMS else items))"

text \<open>
  \<open>os.makedirs(path)\<close> for a path below a directory: the missing directories of the path
  are created. It raises (\<open>None\<close>) when the path already exists, be it as a directory
  (\<open>exist_ok\<close> is not set), and when one of its parents is a file.
\<close>

fun new_dirs :: "path \<Rightarrow> node" where
  "new_dirs [] = Dir []"
| "new_dirs (name # rest) = Dir [(name, new_dirs rest)]"

fun makedirs :: "path \<Rightarrow> node \<Rightarrow> node option" where
  "makedirs [] t = None"
| "makedirs (name # rest) (File content) = None"
| "makedirs (name # rest) (Dir entries) =
     (case map_of entries name of
        None \<Rightarrow> Some (Dir (entries @ [(name, new_dirs rest)]))
      | Some t \<Rightarrow> map_option (\<lambda>t'. Dir (AList.update name t' entries)) (makedirs rest t))"

text \<open>
  \<open>open(path, 'wb')\<close> and writing the bytes: it raises (\<open>None\<close>) when the parent directory
  is missing or a file, and when the path is a directory.
\<close>

fun write_bytes :: "path \<Rightarrow> string \<Rightarrow> node \<Rightarrow> node option" where
  "write_bytes [] content t = None"
| "write_bytes (name # rest) content (File old) = None"
| "write_bytes [name] content (Dir entries) =
     (case map_of entries name of
        Some (Dir sub) \<Rightarrow> None
      | _ \<Rightarrow> Some (Dir (AList.update name (File content) entries)))"
| "write_bytes (name # rest) content (Dir entries) =
     (case map_of entries name of
        None \<Rightarrow> None
      | Some t \<Rightarrow> map_option (\<lambda>t'. Dir (AList.update name t' entries)) (write_bytes rest content t))"

text \<open>No directory lists two entries of the same name.\<close>

fun distinct_names :: "node \<Rightarrow> bool" where
  "distinct_names (File content) = True"
| "distinct_names (Dir entries) =
     (distinct (map fst entries) \<and> list_all (\<lambda>(name, t). distinct_names t) entries)"

text \<open>
  The backup \<open>extract_zip_archive\<close> takes first: every existing item of \<open>SYNC_ITEMS\<close> is
  copied into \<open>backup-<timestamp>\<close>; \<open>mkdir\<close> raises when that name is a file, and
  \<open>copytree\<close> when the directory it is to create is already there.
\<close>

definition backup_dir_name :: "string \<Rightarrow> string" where
  "backup_dir_name stamp = ''backup-'' @ stamp"

definition backup_copies :: "node \<Rightarrow> (string \<times> node) list" where
  "backup_copies config_dir =
     concat (map (\<lambda>item.
        case parts item of
          [name] \<Rightarrow> (case node_at [name] config_dir of Some t \<Rightarrow> [(name, t)] | None \<Rightarrow> [])
        | _ \<Rightarrow> [])
      SYNC_ITEMS)"

fun is_dir :: "node \<Rightarrow> bool" where
  "is_dir (Dir entries) = True"
| "is_dir (File content) = False"

definition backup_current :: "string \<Rightarrow> node \<Rightarrow> py_error + node" where
  "backup_current stamp config_dir =
     (case config_dir of
        File content \<Rightarrow> Inl OSError
      | Dir entries \<Rightarrow>
          (case map_of entries (backup_dir_name stamp) of
             None \<Rightarrow>
               Inr (Dir (entries @ [(backup_dir_name stamp, Dir (backup_copies config_dir))]))
           | Some (File content) \<Rightarrow> Inl OSError
           | Some (Dir old) \<Rightarrow>
               (if list_ex (\<lambda>(name, t). is_dir t \<and> map_of old name \<noteq> None)
                     (backup_copies config_dir)
                then Inl OSError
                else Inr (Dir (AList.update (backup_dir_name stamp)
                                 (Dir (fold (\<lambda>(name, t). AList.update name t)
                                         (backup_copies config_dir) old))
                                 entries)))))"

text \<open>
  \<open>zipf.extract(name, CONFIG_DIR)\<close>, as \<open>ZipFile._extract_member\<close> of CPython 3.11 runs
  it for a file entry, in the three steps at which the file system is touched:
  \<^item> \<open>os.path.exists(upperdirs)\<close> is tested, \<open>upperdirs\<close> being the directory of the target;
  \<^item> when the test found it missing, \<open>os.makedirs(upperdirs)\<close> is called;
  \<^item> the target is opened with \<open>'wb'\<close> and the bytes of the entry are written: of the
    last entry of that name, which is the one \<open>getinfo\<close> finds.

  The calls run in a \<open>ThreadPoolExecutor\<close>, one task for each name of \<open>namelist()\<close>, and
  \<open>executor.map\<close> returns an iterator that the source never reads: an exception raised by a
  task is not seen by anyone. \<open>progress\<close> says how far a task is; \<open>Raised\<close> is the ghost record
  of such a lost exception.
\<close>

datatype progress = Waiting | Tested bool | Prepared | Extracted | Raised

record extraction =
  target :: node
  workers :: "progress list"

definition extract_step :: "(path \<times> string) list \<Rightarrow> nat \<Rightarrow> extraction \<Rightarrow> extraction" where
  "extract_step archive i x =
     (if length archive \<le> i then x
      else
        let name = fst (archive ! i);
            upperdirs = butlast name
        in case workers x ! i of
          Waiting \<Rightarrow>
            x\<lparr>workers := (workers x)[i := Tested (node_at upperdirs (target x) = None)]\<rparr>
        | Tested missing \<Rightarrow>
            (if missing
             then (case makedirs upperdirs (target x) of
                     None \<Rightarrow> x\<lparr>workers := (workers x)[i := Raised]\<rparr>
                   | Some t \<Rightarrow> x\<lparr>target := t, workers := (workers x)[i := Prepared]\<rparr>)
             else x\<lparr>workers := (workers x)[i := Prepared]\<rparr>)
        | Prepared \<Rightarrow>
            (case map_of (rev archive) name of
               None \<Rightarrow> x\<lparr>workers := (workers x)[i := Raised]\<rparr>
             | Some content \<Rightarrow>
                 (case write_bytes name content (target x) of
                    None \<Rightarrow> x\<lparr>workers := (workers x)[i := Raised]\<rparr>
                  | Some t \<Rightarrow> x\<lparr>target := t, workers := (workers x)[i := Extracted]\<rparr>))
        | Extracted \<Rightarrow> x
        | Raised \<Rightarrow> x)"

text \<open>
  The pool. A schedule is the order in which the tasks take their steps: each number in it
  lets the task of that number take its next step. Leaving the \<open>with\<close> block waits for all
  tasks, so the steps the schedule leaves open are taken at the end, task after task; the
  empty schedule is the extraction of one entry after the other. Every interleaving the pool
  can produce is a schedule (the pool moreover starts the tasks in order and runs at most
  eight at a time).
\<close>

definition run_pool :: "nat list \<Rightarrow> (path \<times> string) list \<Rightarrow> node \<Rightarrow> extraction" where
  "run_pool schedule archive t =
     fold (extract_step archive)
       (schedule @ concat (map (\<lambda>i. [i, i, i]) [0..<length archive]))
       \<lparr>target = t, workers = replicate (length archive) Waiting\<rparr>"

text \<open>
  \<open>extract_zip_archive\<close>: the backup, whose exceptions leave the function, then the pool.
  The result is the \<open>True\<close> the source returns whatever the tasks did, with the state the
  pool left.
\<close>

definition extract_zip_archive ::
  "nat list \<Rightarrow> string \<Rightarrow> (path \<times> string) list \<Rightarrow> node \<Rightarrow> py_error + bool \<times> extraction" where
  "extract_zip_archive schedule stamp archive config_dir =
     (case backup_current stamp config_dir of
        Inl e \<Rightarrow> Inl e
      | Inr t \<Rightarrow> Inr (True, run_pool schedule archive t))"

text \<open>A configuration directory with a theme and a log file beside it.\<close>

definition ex_config_dir :: node where
  "ex_config_dir =
     Dir [(''config.yaml'', File ''{a: 1}''),
          (''themes'', Dir [(''dark.css'', File ''body {}''), (''build.log'', File ''noise'')])]"

section \<open>tabby-sync-bak.py: download\_config\<close>

text \<open>
  The older script keeps \<open>config.yaml\<close> and its backups \<open>config_backup_<timestamp>.yaml\<close>
  beside it. \<open>bak_fetched\<close> is what the request yields: the content of the gist's file, or
  the exception raised by the request, by the status check or by the lookup of the file.
\<close>

record bak_state =
  bak_config :: "string option"
  bak_backups :: "string \<rightharpoonup> string"

record bak_env =
  bak_stamp :: string
  bak_copy_ok :: bool
  bak_fetched :: "py_error + string"
  bak_write_ok :: bool

text \<open>
  \<open>download_config\<close>: \<open>shutil.copy\<close> takes the backup first, outside any \<open>try\<close>, so that a
  missing \<open>config.yaml\<close> or a failed copy ends the function with an exception before the
  request is made. The downloaded text is written in text mode (the encoding of the platform
  is taken to be UTF-8).
\<close>

definition download_config :: "pylib \<Rightarrow> bak_env \<Rightarrow> bak_state \<Rightarrow> (py_error + unit) \<times> bak_state" where
  "download_config L E s =
     (case bak_config s of
        None \<Rightarrow> (Inl OSError, s)
      | Some bytes \<Rightarrow>
          (if \<not> bak_copy_ok E then (Inl OSError, s)
           else
             let s1 = s\<lparr>bak_backups := (bak_backups s)(bak_stamp E \<mapsto> bytes)\<rparr>
             in case bak_fetched E of
               Inl e \<Rightarrow> (Inl e, s1)
             | Inr config_content \<Rightarrow>
                 (if \<not> bak_write_ok E then (Inl OSError, s1)
                  else (Inr (), s1\<lparr>bak_config := Some (write_text L config_content)\<rparr>))))"

section \<open>Properties\<close>

subsection \<open>Evaluating the examples\<close>

lemmas ex_defs = ex_lib_def ex_env_def ex_state_def ex_md5_def ex_safe_load_def ex_dump_def
  ex_decodable_def
lemmas sync_defs = sync_def create_gist_if_not_exists_def read_config_def
  get_remote_config_def calculate_file_hash_def upload_local_def download_remote_def
  merge_both_def update_remote_config_def commit_metadata_def save_metadata_def
  write_backup_def merge_configs_def or_empty_dict_def create_default_metadata_def
  generate_device_id_def read_text_def write_text_def

subsection \<open>Files in text mode\<close>

lemma universal_newlines_id: "CR \<notin> set bytes \<Longrightarrow> universal_newlines bytes = bytes"
  by (induction bytes rule: universal_newlines.induct) auto

lemma write_text_posix: "linesep L = [LF] \<Longrightarrow> write_text L content = content"
  by (induction content) (auto simp: write_text_def)

lemma text_copy_id: "linesep L = [LF] \<Longrightarrow> CR \<notin> set bytes \<Longrightarrow> text_copy L bytes = bytes"
  by (simp add: text_copy_def write_text_posix universal_newlines_id)

subsection \<open>Metadata is committed after the write, and only then\<close>

lemma upload_local_commit:
  assumes "upload_local L E h s = (r, s')"
  shows "take (length (trace s)) (trace s') = trace s \<and>
           (if r = Inr True \<and> performed_write s s' then committed E s s' else untouched s s')"
  using assms
  by (auto simp: upload_local_def update_remote_config_def commit_metadata_def save_metadata_def
        committed_def untouched_def performed_write_def
      split: option.splits if_splits sum.splits)

lemma download_remote_commit:
  assumes "download_remote L E rc rh s = (r, s')"
  shows "take (length (trace s)) (trace s') = trace s \<and>
           (if r = Inr True \<and> performed_write s s' then committed E s s' else untouched s s')"
  using assms
  by (auto simp: download_remote_def write_backup_def commit_metadata_def save_metadata_def
        committed_def untouched_def performed_write_def Let_def
      split: option.splits if_splits)

lemma merge_both_commit:
  assumes "merge_both L E rc s = (r, s')"
  shows "take (length (trace s)) (trace s') = trace s \<and>
           (if r = Inr True \<and> performed_write s s' then committed E s s' else untouched s s')"
  using assms
  by (auto simp: merge_both_def write_backup_def update_remote_config_def commit_metadata_def
        save_metadata_def committed_def untouched_def performed_write_def Let_def
      split: option.splits if_splits sum.splits)

lemma create_gist_pre:
  assumes "create_gist_if_not_exists L E s0 = (r, s)"
  shows "metadata s = metadata s0 \<and> metadata_store s = metadata_store s0 \<and>
         config_file s = config_file s0 \<and> backup_files s = backup_files s0 \<and>
         (\<exists>pre. trace s = trace s0 @ pre \<and> \<not> list_ex is_write pre)"
  using assms
  by (auto simp: create_gist_if_not_exists_def Let_def split: option.splits if_splits sum.splits)

lemma get_remote_config_Some:
  "get_remote_config L E s = Some (rc, rh, t) \<Longrightarrow>
     \<exists>g. gists s (gist_id s) = Some g \<and> files g ''config.yaml'' = Some rc \<and> rh = md5 L rc \<and> net_fetch_ok E"
  by (auto simp: get_remote_config_def split: option.splits if_splits)

lemma lift_pre:
  assumes "trace s = trace s0 @ pre" "\<not> list_ex is_write pre" "metadata s = metadata s0"
    "metadata_store s = metadata_store s0"
    "take (length (trace s)) (trace s') = trace s \<and>
           (if r = Inr True \<and> performed_write s s' then committed E s s' else untouched s s')"
  shows "if r = Inr True \<and> performed_write s0 s' then committed E s0 s' else untouched s0 s'"
proof -
  from assms(5) have t: "take (length (trace s)) (trace s') = trace s" by simp
  then have "trace s' = trace s @ drop (length (trace s)) (trace s')"
    by (metis append_take_drop_id)
  then have "trace s' = trace s0 @ pre @ drop (length (trace s)) (trace s')"
    using assms(1) by simp
  then have "drop (length (trace s0)) (trace s') = pre @ drop (length (trace s)) (trace s')"
    by (metis append_eq_conv_conj)
  then have "performed_write s0 s' = performed_write s s'"
    using assms(2) by (simp add: performed_write_def)
  then show ?thesis
    using assms(3,4,5) by (auto simp: committed_def untouched_def split: if_splits)
qed

text \<open>
  What every cycle does to the metadata: after a cycle that returned \<open>True\<close> and performed
  a write (an accepted upload or a completed write of \<open>config.yaml\<close>), the history has one
  more entry, the two stored fingerprints are one value, and the metadata file holds the
  new record unless saving it failed; after every other cycle (a failed write, an
  exception, a cycle without a write) the metadata and its file are as they were.
\<close>

lemma sync_commit:
  assumes "sync L E fu fd s0 = (r, s')"
  shows "if r = Inr True \<and> performed_write s0 s' then committed E s0 s' else untouched s0 s'"
proof -
  obtain r1 s where c: "create_gist_if_not_exists L E s0 = (r1, s)" by fastforce
  from create_gist_pre[OF c] obtain pre where pre:
    "trace s = trace s0 @ pre" "\<not> list_ex is_write pre" "metadata s = metadata s0"
    "metadata_store s = metadata_store s0" by blast
  have same: "take (length (trace s)) (trace s) = trace s \<and>
           (if r = Inr True \<and> performed_write s s then committed E s s else untouched s s)"
    by (simp add: performed_write_def untouched_def)
  show ?thesis
  proof (cases "r1 = Inr True")
    case False
    then have "s' = s" using assms c
      by (cases r1) (auto simp: sync_def split: bool.splits)
    with same pre show ?thesis using lift_pre by blast
  next
    case True
    show ?thesis
    proof (cases "get_remote_config L E s")
      case None
      then have "s' = s" using assms c True by (simp add: sync_def)
      with same pre show ?thesis using lift_pre by blast
    next
      case (Some trip)
      obtain rc rh t where trip: "trip = (rc, rh, t)" by (cases trip)
      have "take (length (trace s)) (trace s') = trace s \<and>
           (if r = Inr True \<and> performed_write s s' then committed E s s' else untouched s s')"
        using assms c True Some trip
          upload_local_commit[of L E "calculate_file_hash L E s" s r s']
          download_remote_commit[of L E rc rh s r s']
          merge_both_commit[of L E rc s r s'] same
        by (auto simp: sync_def Let_def split: if_splits)
      with pre show ?thesis using lift_pre by blast
    qed
  qed
qed

subsection \<open>When text mode keeps the bytes\<close>

text \<open>
  On a platform whose line separator is the line feed, and for a \<open>config.yaml\<close> without a
  carriage return, reading and writing in text mode keep the bytes. Then a cycle that
  returns \<open>True\<close> leaves both sides as the metadata records them.
\<close>

lemma upload_local_in_sync:
  assumes "upload_local L E (calculate_file_hash L E s) s = (Inr True, s')"
    and "\<forall>c. config_file s = Some c \<longrightarrow> CR \<notin> set c"
  shows "in_sync L s'"
  using assms
  by (auto simp: upload_local_def read_config_def read_text_def update_remote_config_def
        commit_metadata_def save_metadata_def in_sync_def disk_fingerprint_def
        remote_fingerprint_def calculate_file_hash_def universal_newlines_id
      split: option.splits if_splits sum.splits)

lemma download_remote_in_sync:
  assumes "download_remote L E rc (md5 L rc) s = (Inr True, s')"
    and "gists s (gist_id s) = Some g" and "files g ''config.yaml'' = Some rc"
    and "linesep L = [LF]"
  shows "in_sync L s'"
  using assms
  by (auto simp: download_remote_def write_backup_def commit_metadata_def save_metadata_def
        in_sync_def disk_fingerprint_def remote_fingerprint_def Let_def write_text_posix
      split: option.splits if_splits)

lemma merge_both_in_sync:
  assumes "merge_both L E rc s = (Inr True, s')" and "linesep L = [LF]"
  shows "in_sync L s'"
  using assms
  by (auto simp: merge_both_def write_backup_def update_remote_config_def commit_metadata_def
        save_metadata_def in_sync_def disk_fingerprint_def remote_fingerprint_def Let_def
        write_text_posix
      split: option.splits if_splits sum.splits)

lemma create_gist_no_write:
  assumes "create_gist_if_not_exists L E s0 = (r, s)"
  shows "\<not> performed_write s0 s"
  using create_gist_pre[OF assms] by (auto simp: performed_write_def)

lemma sync_success_in_sync:
  assumes "sync L E fu fd s0 = (Inr True, s')"
    and "performed_write s0 s' \<or> file_readable E"
    and "linesep L = [LF]" and "\<forall>c. config_file s0 = Some c \<longrightarrow> CR \<notin> set c"
  shows "in_sync L s'"
proof -
  obtain r1 s where c: "create_gist_if_not_exists L E s0 = (r1, s)" by fastforce
  have r1: "r1 = Inr True"
    using assms(1) c by (cases r1) (auto simp: sync_def split: bool.splits)
  have cr: "\<forall>c. config_file s = Some c \<longrightarrow> CR \<notin> set c"
    using create_gist_pre[OF c] assms(4) by simp
  obtain rc rh t where f: "get_remote_config L E s = Some (rc, rh, t)"
    using assms(1) c r1 by (cases "get_remote_config L E s") (auto simp: sync_def)
  from get_remote_config_Some[OF f] obtain g where
    g: "gists s (gist_id s) = Some g" "files g ''config.yaml'' = Some rc" "rh = md5 L rc" by auto
  have noop: "s' = s \<Longrightarrow> calculate_file_hash L E s = last_local_hash (metadata s) \<Longrightarrow>
      Some rh = last_remote_hash (metadata s) \<Longrightarrow> in_sync L s"
    using g assms(2) create_gist_no_write[OF c]
    by (auto simp: in_sync_def disk_fingerprint_def remote_fingerprint_def calculate_file_hash_def
        split: option.splits) metis+
  show ?thesis
    using assms(1,3) c r1 f g cr noop upload_local_in_sync[of L E s s']
      download_remote_in_sync[of L E rc s s' g] merge_both_in_sync[of L E rc s s']
    by (auto simp: sync_def Let_def split: if_splits)
qed

lemma sync_commit_bytes_kept:
  assumes "sync L E fu fd s0 = (Inr True, s')" and "performed_write s0 s'"
    and "linesep L = [LF]" and "\<forall>c. config_file s0 = Some c \<longrightarrow> CR \<notin> set c"
  shows "consistent_commit L s0 s'"
  using sync_success_in_sync[OF assms(1) _ assms(3,4)] sync_commit[OF assms(1)] assms(2)
  by (simp add: consistent_commit_def in_sync_def committed_def)

text \<open>
  C1. The fingerprints a successful cycle stores are not always those of the two sides. In
  \<open>ex_local_changed\<close> the last cycle left both sides at \<open>{a: 1}\<close>, and \<open>config.yaml\<close> now
  holds the line \<open>{b: 2}\<close> ended by carriage return and line feed. The cycle finds the local
  side changed, uploads and returns \<open>True\<close>. What it uploads is the text of the file, whose
  line ends with the line feed alone; what it stores for both sides is the fingerprint of
  the bytes of the file. The stored last-local fingerprint is that of the file on disk; the
  stored last-remote fingerprint is not that of the content now in the gist.
\<close>

theorem upload_stores_fingerprint_of_file_bytes:
  "fst (sync ex_lib ex_env False False ex_local_changed) = Inr True \<and>
   trace (snd (sync ex_lib ex_env False False ex_local_changed)) =
     [Patch_gist (''{b: 2}'' @ [LF]) True] \<and>
   config_file (snd (sync ex_lib ex_env False False ex_local_changed)) =
     Some (''{b: 2}'' @ [CR, LF]) \<and>
   last_local_hash (metadata (snd (sync ex_lib ex_env False False ex_local_changed))) =
     Some ''54bd951c2cd3fa35dab18e1fab3b2d43'' \<and>
   disk_fingerprint ex_lib (snd (sync ex_lib ex_env False False ex_local_changed)) =
     Some ''54bd951c2cd3fa35dab18e1fab3b2d43'' \<and>
   last_remote_hash (metadata (snd (sync ex_lib ex_env False False ex_local_changed))) =
     Some ''54bd951c2cd3fa35dab18e1fab3b2d43'' \<and>
   remote_fingerprint ex_lib (snd (sync ex_lib ex_env False False ex_local_changed)) =
     Some ''0545b84670561b22930cb27e9075b9d1''"
  by (simp add: ex_defs ex_local_changed_def ex_synced_def sync_defs Let_def
        disk_fingerprint_def remote_fingerprint_def)

subsection \<open>The no-change skip and idempotence\<close>

lemma in_sync_noop:
  assumes "in_sync L s" and "net_check_ok E" and "net_fetch_ok E" and "file_readable E"
  shows "sync L E False False s = (Inr True, s)"
  using assms
  by (auto simp: in_sync_def sync_def create_gist_if_not_exists_def get_remote_config_def
        calculate_file_hash_def disk_fingerprint_def remote_fingerprint_def
      split: option.splits)

text \<open>
  Without force flags, when the local fingerprint is the stored last-local one and the
  fetched remote fingerprint is the stored last-remote one, \<open>sync()\<close> returns \<open>True\<close>
  and leaves the whole state as it was: no event is added to the trace (no remote write, no
  write of \<open>config.yaml\<close>), and the metadata, its history and its file are unchanged.
\<close>

lemma sync_noop:
  assumes "net_check_ok E" and "get_remote_config L E s = Some (rc, rh, t)"
    and "calculate_file_hash L E s = last_local_hash (metadata s)"
    and "Some rh = last_remote_hash (metadata s)"
  shows "sync L E False False s = (Inr True, s)"
  using assms get_remote_config_Some[OF assms(2)]
  by (auto simp: sync_def create_gist_if_not_exists_def)

text \<open>
  When text mode keeps the bytes, a second cycle after one that returned \<open>True\<close> is that
  no-op, provided it finds the file readable and the store reachable.
\<close>

lemma sync_twice_bytes_kept:
  assumes "sync L E1 fu fd s1 = (Inr True, s2)" and "performed_write s1 s2 \<or> file_readable E1"
    and "linesep L = [LF]" and "\<forall>c. config_file s1 = Some c \<longrightarrow> CR \<notin> set c"
    and "net_check_ok E2" and "net_fetch_ok E2" and "file_readable E2"
  shows "sync L E2 False False s2 = (Inr True, s2)"
  using sync_success_in_sync[OF assms(1-4)] assms(5-7) in_sync_noop by blast

text \<open>
  C2. Running the cycle twice with no change in between does not always make the second
  run a no-op. After the cycle of \<open>ex_local_changed\<close> above, nothing is changed on either
  side. The second cycle finds the local fingerprint as stored, but the fingerprint of the
  gist's content differs from the stored last-remote fingerprint, which was taken from the
  bytes of the file: it takes the remote side for changed, backs up \<open>config.yaml\<close>,
  overwrites it with the downloaded text and appends a \<open>download\<close> entry to the history.
\<close>

theorem second_cycle_downloads:
  "fst (sync ex_lib ex_env False False (snd (sync ex_lib ex_env False False ex_local_changed))) =
     Inr True \<and>
   trace (snd (sync ex_lib ex_env False False
                 (snd (sync ex_lib ex_env False False ex_local_changed)))) =
     trace (snd (sync ex_lib ex_env False False ex_local_changed)) @
     [Write_backup 1735787045 (''{b: 2}'' @ [LF]), Write_config (''{b: 2}'' @ [LF]) True] \<and>
   config_file (snd (sync ex_lib ex_env False False
                 (snd (sync ex_lib ex_env False False ex_local_changed)))) =
     Some (''{b: 2}'' @ [LF]) \<and>
   map h_action (sync_history (metadata (snd (sync ex_lib ex_env False False
                 (snd (sync ex_lib ex_env False False ex_local_changed)))))) =
     [''upload'', ''download'']"
  by (simp add: ex_defs ex_local_changed_def ex_synced_def sync_defs Let_def)

subsection \<open>The both-changed path\<close>

lemma sync_both_changed:
  assumes "net_check_ok E" and "get_remote_config L E s = Some (rc, rh, t)"
    and "calculate_file_hash L E s \<noteq> last_local_hash (metadata s)"
    and "Some rh \<noteq> last_remote_hash (metadata s)"
  shows "sync L E False False s = merge_both L E rc s"
  using assms get_remote_config_Some[OF assms(2)]
  by (auto simp: sync_def create_gist_if_not_exists_def)

text \<open>
  C10, as amended. In the both-changed path the merged document is written to
  \<open>config.yaml\<close> before the upload is attempted (the trace shows the order). When that
  upload then fails, \<open>sync()\<close> returns \<open>False\<close>, \<open>config.yaml\<close> holds the merged text, and
  the metadata, its history, its file and the gist are unchanged. The prior local content is
  then in the backup file alone, and only when the backup could be written: the backup
  holds the copy that reading and writing in text mode make of the prior bytes, which is
  the prior bytes themselves whenever such a copy reproduces them. When the backup could not
  be written, no backup file changed.
\<close>

theorem merge_upload_failure:
  assumes "net_check_ok E" and "get_remote_config L E s = Some (rc, rh, t)"
    and "config_file s = Some lc" and "file_readable E" and "decodable L lc"
    and "Some (md5 L lc) \<noteq> last_local_hash (metadata s)"
    and "Some rh \<noteq> last_remote_hash (metadata s)"
    and "safe_load L (universal_newlines lc) = Some local_doc"
    and "safe_load L rc = Some remote_doc"
    and "merge_configs L (or_empty_dict local_doc) (or_empty_dict remote_doc) = Inr merged"
    and "dump L merged = Some merged_content"
    and "write_ok E" and "\<not> net_patch_ok E"
  shows "\<exists>s'. sync L E False False s = (Inr False, s') \<and>
           config_file s' = Some (write_text L merged_content) \<and>
           trace s' = trace s @
                        (if backup_ok E then [Write_backup (epoch E) (text_copy L lc)] else []) @
                        [Write_config (write_text L merged_content) True,
                         Patch_gist merged_content False] \<and>
           metadata s' = metadata s \<and> metadata_store s' = metadata_store s \<and>
           gists s' = gists s \<and>
           (backup_ok E \<longrightarrow> backup_files s' (epoch E) = Some (text_copy L lc)) \<and>
           (backup_ok E \<and> text_copy L lc = lc \<longrightarrow> backup_files s' (epoch E) = Some lc) \<and>
           (\<not> backup_ok E \<longrightarrow> backup_files s' = backup_files s)"
proof -
  have "calculate_file_hash L E s \<noteq> last_local_hash (metadata s)"
    using assms(3,4,6) by (simp add: calculate_file_hash_def)
  then have "sync L E False False s = merge_both L E rc s"
    using sync_both_changed assms(1,2,7) by blast
  then show ?thesis
    using assms(3,4,5,8-13)
    by (auto simp: merge_both_def read_config_def read_text_def text_copy_def write_backup_def
          update_remote_config_def Let_def split: option.splits)
qed

theorem merge_upload_failure_witness:
  "sync ex_lib (ex_env\<lparr>net_patch_ok := False\<rparr>) False False (ex_first_run ''{a: 1}'' ''{b: 2}'') =
     (Inr False, snd (sync ex_lib (ex_env\<lparr>net_patch_ok := False\<rparr>) False False
                        (ex_first_run ''{a: 1}'' ''{b: 2}''))) \<and>
   config_file (snd (sync ex_lib (ex_env\<lparr>net_patch_ok := False\<rparr>) False False
                        (ex_first_run ''{a: 1}'' ''{b: 2}''))) = Some (''a: 1'' @ [LF]) \<and>
   backup_files (snd (sync ex_lib (ex_env\<lparr>net_patch_ok := False\<rparr>) False False
                        (ex_first_run ''{a: 1}'' ''{b: 2}''))) 1735787045 = Some ''{a: 1}'' \<and>
   metadata (snd (sync ex_lib (ex_env\<lparr>net_patch_ok := False\<rparr>) False False
                        (ex_first_run ''{a: 1}'' ''{b: 2}''))) =
     metadata (ex_first_run ''{a: 1}'' ''{b: 2}'')"
proof -
  let ?E = "ex_env\<lparr>net_patch_ok := False\<rparr>"
  let ?s = "ex_first_run ''{a: 1}'' ''{b: 2}''"
  have h: "net_check_ok ?E"
    "get_remote_config ex_lib ?E ?s =
       Some (''{b: 2}'', ''fca290f31750545e750d1b6b0bf580cc'', ''2025-01-01T00:00:00Z'')"
    "config_file ?s = Some ''{a: 1}''" "file_readable ?E" "decodable ex_lib ''{a: 1}''"
    "Some (md5 ex_lib ''{a: 1}'') \<noteq> last_local_hash (metadata ?s)"
    "Some ''fca290f31750545e750d1b6b0bf580cc'' \<noteq> last_remote_hash (metadata ?s)"
    "safe_load ex_lib (universal_newlines ''{a: 1}'') = Some (YDict [(YStr ''a'', YInt 1)])"
    "safe_load ex_lib ''{b: 2}'' = Some (YDict [(YStr ''b'', YInt 2)])"
    "merge_configs ex_lib (or_empty_dict (YDict [(YStr ''a'', YInt 1)]))
       (or_empty_dict (YDict [(YStr ''b'', YInt 2)])) = Inr (YDict [(YStr ''a'', YInt 1)])"
    "dump ex_lib (YDict [(YStr ''a'', YInt 1)]) = Some (''a: 1'' @ [LF])"
    "write_ok ?E" "\<not> net_patch_ok ?E"
    by (simp_all add: ex_defs ex_first_run_def load_metadata_def sync_defs)
  have b: "backup_ok ?E" "epoch ?E = 1735787045" "text_copy ex_lib ''{a: 1}'' = ''{a: 1}''"
    "write_text ex_lib (''a: 1'' @ [LF]) = ''a: 1'' @ [LF]"
    by (simp_all add: ex_defs text_copy_def write_text_def)
  from merge_upload_failure[OF h] b show ?thesis by auto
qed

text \<open>
  The claim as stated fails: on the first run of a device with the local \<open>{a: 1}\<close> and the
  remote \<open>{b: 2}\<close>, the backup file cannot be written and the upload is refused. The cycle
  returns \<open>False\<close> with \<open>config.yaml\<close> rewritten; there is no backup file, and the gist
  still holds its own content: the prior local content survives nowhere.
\<close>

theorem merge_without_backup_counterexample:
  "fst (sync ex_lib (ex_env\<lparr>backup_ok := False, net_patch_ok := False\<rparr>) False False
          (ex_first_run ''{a: 1}'' ''{b: 2}'')) = Inr False \<and>
   config_file (ex_first_run ''{a: 1}'' ''{b: 2}'') = Some ''{a: 1}'' \<and>
   config_file (snd (sync ex_lib (ex_env\<lparr>backup_ok := False, net_patch_ok := False\<rparr>) False False
          (ex_first_run ''{a: 1}'' ''{b: 2}''))) = Some (''a: 1'' @ [LF]) \<and>
   dom (backup_files (snd (sync ex_lib (ex_env\<lparr>backup_ok := False, net_patch_ok := False\<rparr>)
          False False (ex_first_run ''{a: 1}'' ''{b: 2}'')))) = {} \<and>
   get_remote_config ex_lib ex_env
       (snd (sync ex_lib (ex_env\<lparr>backup_ok := False, net_patch_ok := False\<rparr>) False False
          (ex_first_run ''{a: 1}'' ''{b: 2}''))) =
     Some (''{b: 2}'', ''fca290f31750545e750d1b6b0bf580cc'', ''2025-01-01T00:00:00Z'')"
  by (simp add: ex_defs ex_first_run_def load_metadata_def sync_defs Let_def)

text \<open>
  C5, as amended. In the both-changed case, when the local document (the text of
  \<open>config.yaml\<close>, if it can be decoded at all) or the remote document fails to parse,
  \<open>sync()\<close> aborts the merge and returns \<open>False\<close> with the state as it was: no backup, no
  write of \<open>config.yaml\<close>, no upload, metadata unchanged. No conflict strategy chooses a
  surviving content: \<open>sync()\<close> takes none, and compares no timestamps.
\<close>

theorem parse_failure_aborts:
  assumes "net_check_ok E" and "get_remote_config L E s = Some (rc, rh, t)"
    and "config_file s = Some lc"
    and "calculate_file_hash L E s \<noteq> last_local_hash (metadata s)"
    and "Some rh \<noteq> last_remote_hash (metadata s)"
    and "\<not> decodable L lc \<or> safe_load L (universal_newlines lc) = None \<or>
         safe_load L rc = None"
  shows "sync L E False False s = (Inr False, s)"
proof -
  have "sync L E False False s = merge_both L E rc s"
    using sync_both_changed assms(1,2,4,5) by blast
  then show ?thesis
    using assms(3,6)
    by (auto simp: merge_both_def read_config_def read_text_def split: option.splits sum.splits)
qed

theorem parse_failure_aborts_witness:
  "sync ex_lib ex_env False False (ex_first_run ''{b: 2}'' ''a: [1'') =
     (Inr False, ex_first_run ''{b: 2}'' ''a: [1'')"
proof -
  let ?s = "ex_first_run ''{b: 2}'' ''a: [1''"
  have h: "net_check_ok ex_env"
    "get_remote_config ex_lib ex_env ?s =
       Some (''a: [1'', ''b80f1eb50bd23c513c850d30d2124f9a'', ''2025-01-01T00:00:00Z'')"
    "config_file ?s = Some ''{b: 2}''"
    "calculate_file_hash ex_lib ex_env ?s \<noteq> last_local_hash (metadata ?s)"
    "Some ''b80f1eb50bd23c513c850d30d2124f9a'' \<noteq> last_remote_hash (metadata ?s)"
    "\<not> decodable ex_lib ''{b: 2}'' \<or> safe_load ex_lib (universal_newlines ''{b: 2}'') = None \<or>
     safe_load ex_lib ''a: [1'' = None"
    by (simp_all add: ex_defs ex_first_run_def load_metadata_def sync_defs)
  from parse_failure_aborts[OF h] show ?thesis .
qed

text \<open>
  The claim as stated fails: the local document \<open>{a: 1}\<close> is well-formed, the remote one
  \<open>a: [1\<close> is not, both differ from the stored (null) fingerprints. The cycle reports
  failure and writes nothing; afterwards the two sides still hold their different contents.
\<close>

theorem parse_failure_no_strategy_counterexample:
  "fst (sync ex_lib ex_env False False (ex_first_run ''{a: 1}'' ''a: [1'')) = Inr False \<and>
   config_file (snd (sync ex_lib ex_env False False (ex_first_run ''{a: 1}'' ''a: [1''))) =
     Some ''{a: 1}'' \<and>
   get_remote_config ex_lib ex_env
       (snd (sync ex_lib ex_env False False (ex_first_run ''{a: 1}'' ''a: [1''))) =
     Some (''a: [1'', ''b80f1eb50bd23c513c850d30d2124f9a'', ''2025-01-01T00:00:00Z'') \<and>
   trace (snd (sync ex_lib ex_env False False (ex_first_run ''{a: 1}'' ''a: [1''))) = []"
  by (simp add: ex_defs ex_first_run_def load_metadata_def sync_defs Let_def)

subsection \<open>The first run\<close>

lemma merge_both_history:
  assumes "merge_both L E rc s = (Inr True, s')"
  shows "sync_history (metadata s') = sync_history (metadata s) @
       [\<lparr>h_time = now_hist E, h_action = ''merge'', h_device_id = device_id (metadata s)\<rparr>] \<and>
     (\<exists>merged_content backup.
        config_file s' = Some (write_text L merged_content) \<and>
        \<not> list_ex is_write backup \<and>
        trace s' = trace s @ backup @
           [Write_config (write_text L merged_content) True, Patch_gist merged_content True])"
proof -
  have b: "\<exists>backup. trace (write_backup L E s) = trace s @ backup \<and> \<not> list_ex is_write backup"
    by (auto simp: write_backup_def Let_def split: option.splits)
  then obtain backup where backup: "trace (write_backup L E s) = trace s @ backup"
    "\<not> list_ex is_write backup" by blast
  have m: "metadata (write_backup L E s) = metadata s"
    by (simp add: write_backup_def Let_def split: option.splits)
  from assms backup m show ?thesis
    by (auto simp: merge_both_def update_remote_config_def commit_metadata_def
          save_metadata_def Let_def
        split: option.splits if_splits sum.splits)
qed

lemma first_run_classified:
  assumes "last_local_hash (metadata s) = None" and "last_remote_hash (metadata s) = None"
    and "config_file s = Some lc" and "file_readable E"
    and "create_gist_if_not_exists L E s = (r1, s1)"
  shows "sync L E False False s =
           (if r1 = Inr True
            then (case get_remote_config L E s1 of
                    None \<Rightarrow> (Inr False, s1)
                  | Some (rc, rh, t) \<Rightarrow> merge_both L E rc s1)
            else (r1, s1))"
proof -
  from create_gist_pre[OF assms(5)] have same: "metadata s1 = metadata s"
    "config_file s1 = config_file s" by simp_all
  have h: "calculate_file_hash L E s1 \<noteq> None"
    using same(2) assms(3,4) by (simp add: calculate_file_hash_def)
  show ?thesis
  proof (cases "r1 = Inr True")
    case False
    then show ?thesis using assms(5)
      by (cases r1) (auto simp: sync_def split: bool.splits)
  next
    case True
    then show ?thesis using assms(1,2,5) same(1) h
      by (auto simp: sync_def Let_def split: option.splits)
  qed
qed

text \<open>
  C8, as amended. On a first run (no metadata file, so \<open>load_metadata\<close> creates the
  default metadata with null fingerprints), with \<open>config.yaml\<close> present and readable,
  \<open>sync()\<close> without force flags ends where \<open>create_gist_if_not_exists\<close> fails or the
  remote content cannot be fetched, and is otherwise the both-changed path: the fetched
  fingerprint is never null, so it differs from the stored one as the local one does. A
  successful cycle has therefore written the merged document to \<open>config.yaml\<close>, uploaded
  the merged document as the only accepted upload or local write besides, and recorded the
  action \<open>merge\<close>; the cycle is never the upload of case 2.
\<close>

theorem first_run_is_merged:
  assumes "metadata_store s0 = No_file" and "s = load_metadata L E0 s0"
    and "config_file s = Some lc" and "file_readable E"
    and "create_gist_if_not_exists L E s = (r1, s1)"
    and "sync L E False False s = (r, s')"
  shows "(r1 \<noteq> Inr True \<longrightarrow> (r, s') = (r1, s1)) \<and>
         (r1 = Inr True \<and> get_remote_config L E s1 = None \<longrightarrow> (r, s') = (Inr False, s1)) \<and>
         (\<forall>rc rh t. r1 = Inr True \<and> get_remote_config L E s1 = Some (rc, rh, t) \<longrightarrow>
            (r, s') = merge_both L E rc s1) \<and>
         (r = Inr True \<longrightarrow>
            map h_action (sync_history (metadata s')) = [''merge''] \<and>
            (\<exists>merged_content before.
               config_file s' = Some (write_text L merged_content) \<and>
               \<not> list_ex is_write before \<and>
               trace s' = trace s @ before @
                 [Write_config (write_text L merged_content) True,
                  Patch_gist merged_content True]))"
proof -
  have m: "last_local_hash (metadata s) = None" "last_remote_hash (metadata s) = None"
    "sync_history (metadata s) = []"
    using assms(1,2)
    by (simp_all add: load_metadata_def save_metadata_def create_default_metadata_def)
  note cls = first_run_classified[OF m(1,2) assms(3,4,5)]
  have part1: "r1 \<noteq> Inr True \<longrightarrow> (r, s') = (r1, s1)"
    and part2: "r1 = Inr True \<and> get_remote_config L E s1 = None \<longrightarrow> (r, s') = (Inr False, s1)"
    and part3: "\<forall>rc rh t. r1 = Inr True \<and> get_remote_config L E s1 = Some (rc, rh, t) \<longrightarrow>
            (r, s') = merge_both L E rc s1"
    using cls assms(6) by auto
  have part4: "r = Inr True \<longrightarrow>
            map h_action (sync_history (metadata s')) = [''merge''] \<and>
            (\<exists>merged_content before.
               config_file s' = Some (write_text L merged_content) \<and>
               \<not> list_ex is_write before \<and>
               trace s' = trace s @ before @
                 [Write_config (write_text L merged_content) True,
                  Patch_gist merged_content True])"
  proof
    assume r: "r = Inr True"
    from create_gist_pre[OF assms(5)] obtain pre where pre:
      "metadata s1 = metadata s" "trace s1 = trace s @ pre" "\<not> list_ex is_write pre" by blast
    have r1: "r1 = Inr True" using part1 r by auto
    obtain rc rh t where f: "get_remote_config L E s1 = Some (rc, rh, t)"
      using part2 r1 r by (cases "get_remote_config L E s1") auto
    with part3 r1 r have "merge_both L E rc s1 = (Inr True, s')" by simp
    from merge_both_history[OF this] obtain merged_content backup where
      h: "sync_history (metadata s') = sync_history (metadata s1) @
            [\<lparr>h_time = now_hist E, h_action = ''merge'', h_device_id = device_id (metadata s1)\<rparr>]"
         "config_file s' = Some (write_text L merged_content)"
         "\<not> list_ex is_write backup"
         "trace s' = trace s1 @ backup @
            [Write_config (write_text L merged_content) True, Patch_gist merged_content True]"
      by blast
    have "\<not> list_ex is_write (pre @ backup)" using pre(3) h(3) by simp
    moreover have "trace s' = trace s @ (pre @ backup) @
        [Write_config (write_text L merged_content) True, Patch_gist merged_content True]"
      using h(4) pre(2) by simp
    ultimately show "map h_action (sync_history (metadata s')) = [''merge''] \<and>
            (\<exists>merged_content before.
               config_file s' = Some (write_text L merged_content) \<and>
               \<not> list_ex is_write before \<and>
               trace s' = trace s @ before @
                 [Write_config (write_text L merged_content) True,
                  Patch_gist merged_content True])"
      using h(1,2) pre(1) m(3) by auto
  qed
  from part1 part2 part3 part4 show ?thesis by blast
qed

theorem first_run_is_merged_witness:
  "merge_both ex_lib ex_env ''{b: 2}'' (ex_first_run ''{a: 1}'' ''{b: 2}'') =
     (Inr True, snd (sync ex_lib ex_env False False (ex_first_run ''{a: 1}'' ''{b: 2}''))) \<and>
   map h_action (sync_history (metadata
       (snd (sync ex_lib ex_env False False (ex_first_run ''{a: 1}'' ''{b: 2}''))))) = [''merge'']"
proof -
  let ?fresh = "(ex_state ''{a: 1}'' ''{b: 2}'' (create_default_metadata ex_lib ex_env))
          \<lparr>metadata_store := No_file\<rparr>"
  let ?s = "ex_first_run ''{a: 1}'' ''{b: 2}''"
  let ?run = "sync ex_lib ex_env False False ?s"
  have h0: "metadata_store ?fresh = No_file" "?s = load_metadata ex_lib ex_env ?fresh"
    by (simp_all add: ex_first_run_def)
  have h: "config_file ?s = Some ''{a: 1}''" "file_readable ex_env"
    "create_gist_if_not_exists ex_lib ex_env ?s = (Inr True, ?s)"
    by (simp_all add: ex_defs ex_first_run_def load_metadata_def sync_defs)
  have f: "get_remote_config ex_lib ex_env ?s =
       Some (''{b: 2}'', ''fca290f31750545e750d1b6b0bf580cc'', ''2025-01-01T00:00:00Z'')"
    by (simp add: ex_defs ex_first_run_def load_metadata_def sync_defs)
  have r: "fst ?run = Inr True"
    by (simp add: ex_defs ex_first_run_def load_metadata_def sync_defs Let_def)
  note run = first_run_is_merged[OF h0 h surjective_pairing]
  from run[THEN conjunct2, THEN conjunct2, THEN conjunct1] f
  have "(fst ?run, snd ?run) = merge_both ex_lib ex_env ''{b: 2}'' ?s" by blast
  moreover from run[THEN conjunct2, THEN conjunct2, THEN conjunct2] r
  have "map h_action (sync_history (metadata (snd ?run))) = [''merge'']" by blast
  ultimately show ?thesis using r by simp
qed

text \<open>
  The claim as stated fails: on a first run with the local \<open>{a: 1}\<close> and the remote
  \<open>{b: 2}\<close> the cycle is not an upload of the local content. It records \<open>merge\<close>,
  rewrites \<open>config.yaml\<close> with the dump of the merged document and uploads that dump.
\<close>

theorem first_run_upload_counterexample:
  "fst (sync ex_lib ex_env False False (ex_first_run ''{a: 1}'' ''{b: 2}'')) = Inr True \<and>
   map h_action (sync_history (metadata
       (snd (sync ex_lib ex_env False False (ex_first_run ''{a: 1}'' ''{b: 2}''))))) = [''merge''] \<and>
   trace (snd (sync ex_lib ex_env False False (ex_first_run ''{a: 1}'' ''{b: 2}''))) =
     [Write_backup 1735787045 ''{a: 1}'', Write_config (''a: 1'' @ [LF]) True,
      Patch_gist (''a: 1'' @ [LF]) True] \<and>
   config_file (snd (sync ex_lib ex_env False False (ex_first_run ''{a: 1}'' ''{b: 2}''))) =
     Some (''a: 1'' @ [LF])"
  by (simp add: ex_defs ex_first_run_def load_metadata_def sync_defs Let_def)

subsection \<open>Merging profiles by name\<close>

lemma update_fresh: "k \<notin> fst ` set al \<Longrightarrow> AList.update k v al = al @ [(k, v)]"
  by (induction al) auto

lemma has_string_nameD:
  "has_string_name p \<Longrightarrow> \<exists>kvs n. p = YDict kvs \<and> map_of kvs (YStr ''name'') = Some (YStr n) \<and>
      profile_name p = Some (YStr n)"
  by (auto simp: profile_name_def split: yaml.splits option.splits)

lemma profiles_by_name_keyed:
  assumes "list_all has_string_name ps" and "distinct (map profile_name ps)"
    and "\<forall>p \<in> set ps. the (profile_name p) \<notin> fst ` set acc"
  shows "profiles_by_name i ps acc = Inr (acc @ map (\<lambda>p. (the (profile_name p), p)) ps)"
  using assms
proof (induction ps arbitrary: i acc)
  case Nil
  then show ?case by simp
next
  case (Cons p ps)
  from Cons.prems(1) have "has_string_name p" by simp
  then obtain kvs n where p: "p = YDict kvs" "map_of kvs (YStr ''name'') = Some (YStr n)"
    "profile_name p = Some (YStr n)" using has_string_nameD by blast
  have fresh: "YStr n \<notin> fst ` set acc" using Cons.prems(3) p(3) by auto
  have rest: "\<forall>q \<in> set ps. the (profile_name q) \<notin> fst ` set (acc @ [(YStr n, p)])"
  proof
    fix q assume q: "q \<in> set ps"
    then have "has_string_name q" using Cons.prems(1) by (simp add: list_all_iff)
    then obtain m where m: "profile_name q = Some (YStr m)" using has_string_nameD by blast
    have "profile_name q \<noteq> profile_name p" using Cons.prems(2) q by (force simp: image_iff)
    then have "m \<noteq> n" using m p(3) by auto
    moreover have "YStr m \<notin> fst ` set acc" using Cons.prems(3) q m by force
    ultimately show "the (profile_name q) \<notin> fst ` set (acc @ [(YStr n, p)])"
      using m by auto
  qed
  have "profiles_by_name i (p # ps) acc = profiles_by_name (Suc i) ps (acc @ [(YStr n, p)])"
    using p fresh by (simp add: update_fresh)
  also have "\<dots> = Inr ((acc @ [(YStr n, p)]) @ map (\<lambda>p. (the (profile_name p), p)) ps)"
    using Cons.IH[OF _ _ rest] Cons.prems(1,2) by simp
  finally show ?case using p(3) by simp
qed

lemma merge_profiles_total:
  assumes "\<forall>name \<in> set names. map_of l name \<noteq> None \<or> map_of r name \<noteq> None"
  shows "merge_profiles names l r =
           Inr (map (\<lambda>name. case map_of l name of Some p \<Rightarrow> p | None \<Rightarrow> the (map_of r name)) names)"
  using assms by (induction names) (auto split: option.splits)

lemma map_of_name_index:
  assumes "distinct (map profile_name ps)" and "list_all has_string_name ps"
  shows "map_of (map (\<lambda>p. (the (profile_name p), p)) ps) k = Some p \<longleftrightarrow>
           p \<in> set ps \<and> profile_name p = Some k"
  using assms
proof (induction ps)
  case Nil
  then show ?case by simp
next
  case (Cons q ps)
  from Cons.prems(2) obtain n where n: "profile_name q = Some (YStr n)"
    using has_string_nameD by fastforce
  show ?case
  proof (cases "k = YStr n")
    case True
    have "\<And>p'. p' \<in> set ps \<Longrightarrow> profile_name p' \<noteq> Some k"
      using Cons.prems(1) n True by (force simp: image_iff)
    then show ?thesis using n True by auto
  next
    case False
    then show ?thesis using Cons n by auto
  qed
qed


lemma name_index_keyed:
  assumes "map_of kvs (YStr ''profiles'') = Some (YList ps)" and "keyed_by_name ps"
  shows "name_index (YDict kvs) = Inr (map (\<lambda>p. (the (profile_name p), p)) ps)"
  using assms profiles_by_name_keyed[of ps "[]" 0]
  by (simp add: name_index_def keyed_by_name_def)

text \<open>
  C4. For two documents whose \<open>profiles\<close> lists are keyed by name, \<open>merge_configs\<close>
  returns the local document with its \<open>profiles\<close> replaced by a list that holds exactly:
  every local profile, unchanged (so for a name on both sides the local one), and every
  remote profile, unchanged, whose name no local profile has. The order of the merged list
  is that in which Python iterates over the set of names, of which only the elements are
  known. Merging \<open>[X]\<close> with \<open>[Y]\<close> yields a list with the elements \<open>X\<close> and \<open>Y\<close>.
\<close>

theorem merge_configs_profiles:
  assumes "map_of local_items (YStr ''profiles'') = Some (YList local_profiles)"
    and "map_of remote_items (YStr ''profiles'') = Some (YList remote_profiles)"
    and "keyed_by_name local_profiles" and "keyed_by_name remote_profiles"
    and "\<forall>names. set (set_iter L names) = set names"
  shows "\<exists>merged_profiles.
           merge_configs L (YDict local_items) (YDict remote_items) =
             Inr (YDict (AList.update (YStr ''profiles'') (YList merged_profiles) local_items)) \<and>
           set merged_profiles =
             set local_profiles \<union>
             {p \<in> set remote_profiles. profile_name p \<notin> profile_name ` set local_profiles}"
proof -
  let ?ix = "\<lambda>ps. map (\<lambda>p. (the (profile_name p), p)) ps"
  let ?l = "?ix local_profiles" and ?r = "?ix remote_profiles"
  let ?names = "set_iter L (map fst ?l @ map fst ?r)"
  let ?pick = "\<lambda>name. case map_of ?l name of Some p \<Rightarrow> p | None \<Rightarrow> the (map_of ?r name)"
  have kl: "distinct (map profile_name local_profiles)" "list_all has_string_name local_profiles"
    and kr: "distinct (map profile_name remote_profiles)" "list_all has_string_name remote_profiles"
    using assms(3,4) by (simp_all add: keyed_by_name_def)
  have ml: "\<And>k p. map_of ?l k = Some p \<longleftrightarrow> p \<in> set local_profiles \<and> profile_name p = Some k"
    using map_of_name_index[OF kl] by blast
  have mr: "\<And>k p. map_of ?r k = Some p \<longleftrightarrow> p \<in> set remote_profiles \<and> profile_name p = Some k"
    using map_of_name_index[OF kr] by blast
  have named: "\<And>p. p \<in> set local_profiles \<union> set remote_profiles \<Longrightarrow>
      profile_name p = Some (the (profile_name p))"
    using kl(2) kr(2) has_string_nameD by (fastforce simp: list_all_iff)
  have names: "set ?names = (\<lambda>p. the (profile_name p)) ` (set local_profiles \<union> set remote_profiles)"
    using assms(5) by (auto simp: image_iff)
  have total: "\<forall>name \<in> set ?names. map_of ?l name \<noteq> None \<or> map_of ?r name \<noteq> None"
  proof
    fix name assume "name \<in> set ?names"
    then obtain p where p: "p \<in> set local_profiles \<union> set remote_profiles"
      "name = the (profile_name p)" using names by auto
    then have "profile_name p = Some name" using named by simp
    then have "map_of ?l name = Some p \<or> map_of ?r name = Some p" using p(1) ml mr by auto
    then show "map_of ?l name \<noteq> None \<or> map_of ?r name \<noteq> None" by auto
  qed
  have nonempty: "local_items \<noteq> []" "remote_items \<noteq> []"
    using assms(1,2) by auto
  have run: "merge_configs L (YDict local_items) (YDict remote_items) =
      Inr (YDict (AList.update (YStr ''profiles'') (YList (map ?pick ?names)) local_items))"
    using nonempty assms(1,2) name_index_keyed[OF assms(1,3)] name_index_keyed[OF assms(2,4)]
      merge_profiles_total[OF total]
    by (simp add: merge_configs_def)
  have "set (map ?pick ?names) =
      set local_profiles \<union>
      {p \<in> set remote_profiles. profile_name p \<notin> profile_name ` set local_profiles}"
    (is "?lhs = ?rhs")
  proof (intro set_eqI iffI)
    fix p assume "p \<in> ?lhs"
    then obtain name where n: "name \<in> set ?names" "p = ?pick name" by auto
    show "p \<in> ?rhs"
    proof (cases "map_of ?l name")
      case (Some q)
      then have "p = q" using n(2) by simp
      moreover have "q \<in> set local_profiles" using Some ml by blast
      ultimately show ?thesis by simp
    next
      case None
      then obtain q where q: "map_of ?r name = Some q" using total n(1) by auto
      have pq: "p = q" using n(2) None q by simp
      have qr: "q \<in> set remote_profiles" using q mr by blast
      have "profile_name q \<notin> profile_name ` set local_profiles"
      proof
        assume "profile_name q \<in> profile_name ` set local_profiles"
        then obtain q' where "q' \<in> set local_profiles" "profile_name q' = Some name"
          using q mr by (metis (no_types, lifting) image_iff)
        then have "map_of ?l name = Some q'" using ml by simp
        with None show False by simp
      qed
      then show ?thesis using pq qr by simp
    qed
  next
    fix p assume "p \<in> ?rhs"
    then consider (loc) "p \<in> set local_profiles"
      | (rem) "p \<in> set remote_profiles" "profile_name p \<notin> profile_name ` set local_profiles"
      by auto
    then show "p \<in> ?lhs"
    proof cases
      case loc
      then have "map_of ?l (the (profile_name p)) = Some p" using ml named by auto
      moreover have "the (profile_name p) \<in> set ?names" using names loc by auto
      ultimately show ?thesis by (force simp: image_iff)
    next
      case rem
      have "map_of ?l (the (profile_name p)) = None"
      proof (cases "map_of ?l (the (profile_name p))")
        case (Some q)
        then have "q \<in> set local_profiles" "profile_name q = profile_name p"
          using ml named rem(1) by auto
        then show ?thesis using rem(2) by (metis image_eqI)
      qed simp
      moreover have "map_of ?r (the (profile_name p)) = Some p" using mr named rem(1) by auto
      moreover have "the (profile_name p) \<in> set ?names" using names rem(1) by auto
      ultimately show ?thesis by (force simp: image_iff)
    qed
  qed
  with run show ?thesis by blast
qed


theorem merge_configs_profiles_witness:
  "\<exists>merged_profiles.
     merge_configs ex_lib (YDict [(YStr ''profiles'', YList [ex_profile ''X''])])
       (YDict [(YStr ''profiles'', YList [ex_profile ''Y''])]) =
       Inr (YDict [(YStr ''profiles'', YList merged_profiles)]) \<and>
     set merged_profiles = {ex_profile ''X'', ex_profile ''Y''}"
proof -
  have h: "map_of [(YStr ''profiles'', YList [ex_profile ''X''])] (YStr ''profiles'') =
             Some (YList [ex_profile ''X''])"
    "map_of [(YStr ''profiles'', YList [ex_profile ''Y''])] (YStr ''profiles'') =
             Some (YList [ex_profile ''Y''])"
    "keyed_by_name [ex_profile ''X'']" "keyed_by_name [ex_profile ''Y'']"
    "\<forall>names. set (set_iter ex_lib names) = set names"
    by (simp_all add: keyed_by_name_def profile_name_def ex_profile_def ex_lib_def)
  have "{p \<in> set [ex_profile ''Y'']. profile_name p \<notin> profile_name ` set [ex_profile ''X'']} =
          {ex_profile ''Y''}"
    by (auto simp: profile_name_def ex_profile_def)
  with merge_configs_profiles[OF h] show ?thesis by auto
qed

subsection \<open>The upload chain and its local fallback\<close>























subsection \<open>Directory fingerprints\<close>

text \<open>
  C9. \<open>dir_hash\<close> hashes the files in the order \<open>os.walk\<close> yields them, which is the
  listing order of the directories; it does not sort. The same two files listed in the two
  possible orders give the hasher different bytes.
\<close>

theorem dir_hash_depends_on_listing_order:
  "dir_hash L (Some (Dir [(''a'', File ''1''), (''b'', File ''2'')])) = md5 L ''a1b2'' \<and>
   dir_hash L (Some (Dir [(''b'', File ''2''), (''a'', File ''1'')])) = md5 L ''b2a1''"
proof -
  have "hashed_bytes (Dir [(''a'', File ''1''), (''b'', File ''2'')]) = ''a1b2''"
    and "hashed_bytes (Dir [(''b'', File ''2''), (''a'', File ''1'')]) = ''b2a1''"
    by code_simp+
  then show ?thesis by (simp add: dir_hash_def)
qed

end
